theory Spec2Isabelle
  imports Complex_Main
begin

section \<open>JavaScript values used by the client\<close>

text \<open>
  Numbers that the code only compares, floors or prints as they came (limits, kopek
  amounts, article ids, zone codes) are integers, \<open>int\<close>. The numbers the tool takes
  as page and price bounds, and the numbers the client computes with \<open>*\<close>, \<open>/\<close> and
  \<open>-\<close> for a detail record, are doubles, \<open>double\<close> below. The price of a search
  item is the rational it stands for, \<open>rat\<close>. A value that may be \<open>undefined\<close> or
  \<open>null\<close> is an \<open>option\<close>. Strings are byte strings in UTF-8.
\<close>

text \<open>Truthiness of an optional number, an optional string, and \<open>x || d\<close>.\<close>

definition truthy_int :: "int option \<Rightarrow> bool" where
  "truthy_int x = (case x of None \<Rightarrow> False | Some n \<Rightarrow> n \<noteq> 0)"

definition truthy_rat :: "rat option \<Rightarrow> bool" where
  "truthy_rat x = (case x of None \<Rightarrow> False | Some q \<Rightarrow> q \<noteq> 0)"

definition truthy_str :: "string option \<Rightarrow> bool" where
  "truthy_str x = (case x of None \<Rightarrow> False | Some s \<Rightarrow> s \<noteq> [])"

definition or_int :: "int option \<Rightarrow> int \<Rightarrow> int" where
  "or_int x d = (if truthy_int x then the x else d)"

definition or_str :: "string option \<Rightarrow> string \<Rightarrow> string" where
  "or_str x d = (if truthy_str x then the x else d)"

text \<open>\<open>Number.prototype.toString\<close> on an integer: its decimal digits.\<close>

fun show_nat :: "nat \<Rightarrow> string" where
  "show_nat n = (if n < 10 then [''0123456789'' ! n]
                 else show_nat (n div 10) @ [''0123456789'' ! (n mod 10)])"

declare show_nat.simps [simp del]

definition show_int :: "int \<Rightarrow> string" where
  "show_int i = (if i < 0 then CHR ''-'' # show_nat (nat (- i)) else show_nat (nat i))"

text \<open>\<open>Array.prototype.join\<close> with a separator.\<close>

fun join :: "string \<Rightarrow> string list \<Rightarrow> string" where
  "join sep [] = []"
| "join sep [x] = x"
| "join sep (x # y # ys) = x @ sep @ join sep (y # ys)"

text \<open>
  \<open>encodeURIComponent\<close>: the unreserved characters stay, every other byte of the UTF-8
  encoding becomes \<open>%XX\<close> with upper-case hexadecimal digits.
\<close>

definition unreserved :: "char \<Rightarrow> bool" where
  "unreserved c = (c \<in> set (''ABCDEFGHIJKLMNOPQRSTUVWXYZabcdefghijklmnopqrstuvwxyz''
                           @ ''0123456789-_.!~*()'' @ [CHR 0x27]))"

definition percent :: "char \<Rightarrow> string" where
  "percent c = [CHR ''%'', ''0123456789ABCDEF'' ! (of_char c div 16),
                ''0123456789ABCDEF'' ! (of_char c mod 16)]"

definition encodeURIComponent :: "string \<Rightarrow> string" where
  "encodeURIComponent s = concat (map (\<lambda>c. if unreserved c then [c] else percent c) s)"

section \<open>Doubles\<close>

text \<open>
  A JavaScript number: a finite double, given by the rational it is (the two zeros are
  one value, taken as \<open>+0\<close> where a sign is asked for), an infinity, or NaN. \<open>Fin q\<close>
  is a number only for a \<open>q\<close> that a double has as its value; \<open>nearest\<close> below and
  the operations yield no other, and a number written in decimal, such as 19.99, is
  \<open>nearest (1999 / 100)\<close>.
\<close>

datatype double = Fin rat | PInf | NInf | NaN

text \<open>The number of binary and of decimal digits of a positive integer, and its digits.\<close>

function bits :: "int \<Rightarrow> int" where
  "bits n = (if n \<le> 0 then 0 else 1 + bits (n div 2))"
  by pat_completeness auto
termination
  by (relation "measure nat") auto

declare bits.simps [simp del]

function dlen :: "int \<Rightarrow> int" where
  "dlen n = (if n \<le> 0 then 0 else 1 + dlen (n div 10))"
  by pat_completeness auto
termination
  by (relation "measure nat") auto

declare dlen.simps [simp del]

function digits :: "int \<Rightarrow> string" where
  "digits n = (if n < 10 then [''0123456789'' ! nat n]
               else digits (n div 10) @ [''0123456789'' ! nat (n mod 10)])"
  by pat_completeness auto
termination
  by (relation "measure nat") auto

declare digits.simps [simp del]

definition pow :: "rat \<Rightarrow> int \<Rightarrow> rat" where
  "pow b e = (if 0 \<le> e then b ^ nat e else 1 / b ^ nat (- e))"

text \<open>
  For a positive rational \<open>q\<close>: the \<open>e\<close> with \<open>2^e \<le> q < 2^(e+1)\<close>, and the \<open>n\<close>
  with \<open>10^(n-1) \<le> q < 10^n\<close>.
\<close>

definition exponent2 :: "rat \<Rightarrow> int" where
  "exponent2 q = (if 1 \<le> q then bits \<lfloor>q\<rfloor> - 1 else - bits (\<lceil>1 / q\<rceil> - 1))"

definition exponent10 :: "rat \<Rightarrow> int" where
  "exponent10 q = (if 1 \<le> q then dlen \<lfloor>q\<rfloor> else 1 - dlen (\<lceil>1 / q\<rceil> - 1))"

text \<open>The nearest integer; of two equally near, the even one.\<close>

definition round_even :: "rat \<Rightarrow> int" where
  "round_even x =
     (if x - of_int \<lfloor>x\<rfloor> < 1 / 2 then \<lfloor>x\<rfloor>
      else if 1 / 2 < x - of_int \<lfloor>x\<rfloor> then \<lfloor>x\<rfloor> + 1
      else if even \<lfloor>x\<rfloor> then \<lfloor>x\<rfloor> else \<lfloor>x\<rfloor> + 1)"

text \<open>
  The distance of neighbouring doubles around a positive rational: 53 significant bits,
  and the exponent not below \<open>-1022\<close> (the subnormal numbers).
\<close>

definition ulp :: "rat \<Rightarrow> rat" where
  "ulp q = pow 2 (max (exponent2 q) (- 1022) - 52)"

text \<open>
  The double nearest to a rational (round to nearest, ties to even): the value every
  arithmetic operation on doubles and every reading of a number literal yields for its
  exact result. A magnitude that rounds to \<open>2^1024\<close> or more is an infinity.
\<close>

definition nearest :: "rat \<Rightarrow> double" where
  "nearest q =
     (if q = 0 then Fin 0
      else if pow 2 1024 \<le> of_int (round_even (\<bar>q\<bar> / ulp \<bar>q\<bar>)) * ulp \<bar>q\<bar>
      then (if 0 < q then PInf else NInf)
      else Fin (sgn q * (of_int (round_even (\<bar>q\<bar> / ulp \<bar>q\<bar>)) * ulp \<bar>q\<bar>)))"

definition is_nan :: "double \<Rightarrow> bool" where
  "is_nan x = (x = NaN)"

definition is_inf :: "double \<Rightarrow> bool" where
  "is_inf x = (x = PInf \<or> x = NInf)"

definition is_zero :: "double \<Rightarrow> bool" where
  "is_zero x = (x = Fin 0)"

definition positive :: "double \<Rightarrow> bool" where
  "positive x = (case x of Fin q \<Rightarrow> 0 \<le> q | PInf \<Rightarrow> True | NInf \<Rightarrow> False | NaN \<Rightarrow> False)"

definition rational :: "double \<Rightarrow> rat" where
  "rational x = (case x of Fin q \<Rightarrow> q | _ \<Rightarrow> 0)"

definition infinity :: "bool \<Rightarrow> double" where
  "infinity p = (if p then PInf else NInf)"

text \<open>The operators \<open>-\<close>, \<open>*\<close> and \<open>/\<close> on numbers.\<close>

definition fsub :: "double \<Rightarrow> double \<Rightarrow> double" where
  "fsub x y =
     (if is_nan x \<or> is_nan y then NaN
      else if is_inf x then (if is_inf y \<and> positive x = positive y then NaN else x)
      else if is_inf y then infinity (\<not> positive y)
      else nearest (rational x - rational y))"

definition fmul :: "double \<Rightarrow> double \<Rightarrow> double" where
  "fmul x y =
     (if is_nan x \<or> is_nan y then NaN
      else if is_inf x \<or> is_inf y
      then (if is_zero x \<or> is_zero y then NaN else infinity (positive x = positive y))
      else nearest (rational x * rational y))"

definition fdiv :: "double \<Rightarrow> double \<Rightarrow> double" where
  "fdiv x y =
     (if is_nan x \<or> is_nan y then NaN
      else if is_inf x then (if is_inf y then NaN else infinity (positive x = positive y))
      else if is_inf y then Fin 0
      else if is_zero y then (if is_zero x then NaN else infinity (positive x = positive y))
      else nearest (rational x / rational y))"

text \<open>\<open>Math.round\<close>: the nearest integer, a half rounded up.\<close>

definition math_round :: "double \<Rightarrow> double" where
  "math_round x = (case x of Fin q \<Rightarrow> Fin (of_int \<lfloor>q + 1 / 2\<rfloor>) | _ \<Rightarrow> x)"

text \<open>Truthiness of an optional number, and \<open>x || d\<close>.\<close>

definition truthy_double :: "double option \<Rightarrow> bool" where
  "truthy_double x = (case x of None \<Rightarrow> False | Some d \<Rightarrow> \<not> is_nan d \<and> \<not> is_zero d)"

definition or_double :: "double option \<Rightarrow> double \<Rightarrow> double" where
  "or_double x d = (if truthy_double x then the x else d)"

text \<open>
  \<open>Number.prototype.toString\<close>, as a template literal applies it. For a positive
  double \<open>q\<close> it takes the least number \<open>k\<close> of digits for which some integer \<open>s\<close> of
  \<open>k\<close> digits and some \<open>n\<close> have \<open>s * 10^(n-k)\<close> read back as \<open>q\<close>; of two such \<open>s\<close>
  the one nearer to \<open>q\<close>. No double needs more than 17 digits. \<open>shortest\<close> tries the
  given numbers of digits in turn, at the decimal exponent \<open>n\<close> of \<open>q\<close>, and yields
  \<open>s\<close> and the exponent.
\<close>

fun shortest :: "rat \<Rightarrow> int \<Rightarrow> nat list \<Rightarrow> int \<times> int" where
  "shortest q n [] = (0, 0)"
| "shortest q n (k # ks) =
     (let scale = pow 10 (n - int k);
          lo = \<lfloor>q / scale\<rfloor>;
          hi = lo + 1;
          vlo = (nearest (of_int lo * scale) = Fin q);
          vhi = (nearest (of_int hi * scale) = Fin q);
          s = (if vlo \<and> vhi
               then (if q - of_int lo * scale < of_int hi * scale - q then lo
                     else if of_int hi * scale - q < q - of_int lo * scale then hi
                     else if even lo then lo else hi)
               else if vlo then lo else hi)
      in if vlo \<or> vhi then (if s = 10 ^ k then (10 ^ (k - 1), n + 1) else (s, n))
         else shortest q n ks)"

text \<open>
  The digits \<open>ds\<close> of \<open>s\<close> at the exponent \<open>n\<close>: plain digits, a decimal point inside
  or after leading zeros, or the exponent notation when \<open>n\<close> is above 21 or below \<open>-5\<close>.
\<close>

definition format_number :: "string \<Rightarrow> int \<Rightarrow> string" where
  "format_number ds n =
     (if - 5 \<le> n \<and> n \<le> 21
      then (if int (length ds) \<le> n then ds @ replicate (nat (n - int (length ds))) (CHR ''0'')
            else if 0 < n then take (nat n) ds @ ''.'' @ drop (nat n) ds
            else ''0.'' @ replicate (nat (- n)) (CHR ''0'') @ ds)
      else (if length ds = 1 then ds else take 1 ds @ ''.'' @ drop 1 ds)
           @ ''e'' @ (if n < 0 then ''-'' else ''+'') @ digits \<bar>n - 1\<bar>)"

definition number_string :: "double \<Rightarrow> string" where
  "number_string x =
     (case x of
        NaN \<Rightarrow> ''NaN''
      | PInf \<Rightarrow> ''Infinity''
      | NInf \<Rightarrow> ''-Infinity''
      | Fin q \<Rightarrow>
          if q = 0 then ''0''
          else (if q < 0 then ''-'' else [])
               @ (let sn = shortest \<bar>q\<bar> (exponent10 \<bar>q\<bar>) [1..<18]
                  in format_number (digits (fst sn)) (snd sn)))"

section \<open>Arrays\<close>

text \<open>
  \<open>Array.prototype.slice(0, n)\<close> for an integer \<open>n\<close>: a negative end counts from the
  end of the array.
\<close>

definition slice0 :: "int \<Rightarrow> 'a list \<Rightarrow> 'a list" where
  "slice0 n xs =
     (let len = int (length xs);
          final = (if n < 0 then max (len + n) 0 else min n len)
      in take (nat final) xs)"

text \<open>The elements of \<open>[...new Set(xs)]\<close>: the first occurrence of each, in order.\<close>

fun uniq :: "'a list \<Rightarrow> 'a list \<Rightarrow> 'a list" where
  "uniq seen [] = []"
| "uniq seen (x # xs) = (if x \<in> set seen then uniq seen xs else x # uniq (x # seen) xs)"

section \<open>Errors\<close>

text \<open>
  Every \<open>throw\<close> of the client is a value. The first three carry the message of the
  exception the browser raised.
\<close>

datatype error =
    LaunchFailed string
  | NavigationFailed string
  | FetchFailed string
  | TypeError string
  | ProductNotFound int
  | UnknownTool string

definition message :: "error \<Rightarrow> string" where
  "message e = (case e of
       LaunchFailed m \<Rightarrow> m
     | NavigationFailed m \<Rightarrow> m
     | FetchFailed m \<Rightarrow> m
     | TypeError m \<Rightarrow> m
     | ProductNotFound i \<Rightarrow> ''Product '' @ show_int i @ '' not found''
     | UnknownTool n \<Rightarrow> ''Unknown tool: '' @ n)"

section \<open>The rendered page\<close>

text \<open>
  The text of a price node, as the price regular expression \<open>/(\d[\d\s]*)/g\<close> and
  \<open>trim\<close> see it: each character is a decimal digit, white space, or something else.
\<close>

datatype digit = D0 | D1 | D2 | D3 | D4 | D5 | D6 | D7 | D8 | D9

datatype pchar = Dg digit | Ws | Oc

type_synonym ptext = "pchar list"

fun digit_val :: "digit \<Rightarrow> nat" where
  "digit_val D0 = 0" | "digit_val D1 = 1" | "digit_val D2 = 2" | "digit_val D3 = 3"
| "digit_val D4 = 4" | "digit_val D5 = 5" | "digit_val D6 = 6" | "digit_val D7 = 7"
| "digit_val D8 = 8" | "digit_val D9 = 9"

fun is_dg :: "pchar \<Rightarrow> bool" where
  "is_dg (Dg d) = True" | "is_dg Ws = False" | "is_dg Oc = False"

fun is_ws :: "pchar \<Rightarrow> bool" where
  "is_ws Ws = True" | "is_ws (Dg d) = False" | "is_ws Oc = False"

definition dg_or_ws :: "pchar \<Rightarrow> bool" where
  "dg_or_ws c = (is_dg c \<or> is_ws c)"

definition trim :: "ptext \<Rightarrow> ptext" where
  "trim t = rev (dropWhile is_ws (rev (dropWhile is_ws t)))"

text \<open>\<open>priceText.match(/(\d[\d\s]*)/g)\<close>: the matches from left to right.\<close>

function price_matches :: "ptext \<Rightarrow> ptext list" where
  "price_matches [] = []"
| "price_matches (x # xs) =
     (if is_dg x then (x # takeWhile dg_or_ws xs) # price_matches (dropWhile dg_or_ws xs)
      else price_matches xs)"
  by pat_completeness auto
termination
  by (relation "measure length") (auto simp: length_dropWhile_le less_Suc_eq_le)

text \<open>\<open>parseInt(match.replace(/\s/g, ''))\<close> on a match, which holds digits and spaces only.\<close>

fun parseInt_acc :: "nat \<Rightarrow> ptext \<Rightarrow> nat" where
  "parseInt_acc a [] = a"
| "parseInt_acc a (Dg d # cs) = parseInt_acc (10 * a + digit_val d) cs"
| "parseInt_acc a (c # cs) = parseInt_acc a cs"

definition parseInt :: "ptext \<Rightarrow> nat" where
  "parseInt m = parseInt_acc 0 m"

text \<open>The loop over the matches: the first number between 1 and 99999999.\<close>

fun first_price :: "ptext list \<Rightarrow> nat option" where
  "first_price [] = None"
| "first_price (m # ms) =
     (let num = parseInt m
      in if 0 < num \<and> num < 100000000 then Some num else first_price ms)"

text \<open>
  A product card as the selectors of \<open>search\<close> read it: the \<open>data-nm-id\<close> attribute,
  the link, the trimmed name, the trimmed brand with everything from the first slash
  removed, the text of the wallet-price, final-price and any-price nodes (\<open>None\<close> when
  no node matches the selector), and the image source.
\<close>

record card =
  c_nm_id :: "string option"
  c_href :: "string option"
  c_name :: "string option"
  c_brand :: "string option"
  c_wallet_price :: "ptext option"
  c_final_price :: "ptext option"
  c_any_price :: "ptext option"
  c_img :: "string option"

text \<open>
  A loaded page: whether \<open>waitForSelector('.product-card')\<close> resolves within its
  timeout, the product cards in document order, and the trimmed text of every filter
  button (\<open>None\<close> when the button has no text content).
\<close>

record page =
  cards_appear :: bool
  cards :: "card list"
  filter_buttons :: "string option list"

datatype nav = NavError string | Page page

section \<open>Descriptor payloads\<close>

text \<open>
  The JSON documents the endpoints answer with, at the shape the client reads. A field
  is an \<open>option\<close> wherever the client tolerates its absence.
\<close>

record dprice =
  p_basic :: "int option"
  p_product :: "int option"

text \<open>
  A field that a template literal prints: it is absent (\<open>undefined\<close>), \<open>null\<close>, or a
  number.
\<close>

datatype printed = Undefined | Null | Number int

definition show_printed :: "printed \<Rightarrow> string" where
  "show_printed x =
     (case x of Undefined \<Rightarrow> ''undefined'' | Null \<Rightarrow> ''null'' | Number i \<Rightarrow> show_int i)"

record dstock =
  st_wh :: "int option"
  st_qty :: "int option"
  st_time1 :: printed
  st_time2 :: printed

record dsize =
  sz_name :: "string option"
  sz_optionId :: "int option"
  sz_price :: "dprice option"
  sz_stocks :: "dstock list option"

record dproduct =
  dp_id :: int
  dp_name :: "string option"
  dp_brand :: "string option"
  dp_brandId :: "int option"
  dp_supplier :: "string option"
  dp_supplierId :: "int option"
  dp_supplierRating :: "rat option"
  dp_rating :: "rat option"
  dp_feedbacks :: "int option"
  dp_feedbackPoints :: "int option"
  dp_colors :: "string list option"
  dp_pics :: "int option"
  dp_totalQuantity :: "int option"
  dp_time1 :: "int option"
  dp_time2 :: "int option"
  dp_sizes :: "dsize list option"

record coption =
  o_name :: "string option"
  o_value :: "string option"

record content_card =
  cc_description :: "string option"
  cc_options :: "coption list option"

record geo_info =
  g_address :: "string option"
  g_destinations :: "int list option"

datatype payload =
    JNull
  | Descriptor "dproduct list option"
  | Content content_card
  | Geo geo_info

text \<open>\<open>data.products\<close>, \<open>data.description\<close>, \<open>data.options\<close>, \<open>data.destinations\<close>
  and \<open>data.address\<close> on a document that is not \<open>null\<close>: \<open>undefined\<close> when the
  document has no such field.\<close>

definition products_of :: "payload \<Rightarrow> dproduct list option" where
  "products_of d = (case d of Descriptor ps \<Rightarrow> ps | _ \<Rightarrow> None)"

definition description_of :: "payload \<Rightarrow> string option" where
  "description_of d = (case d of Content c \<Rightarrow> cc_description c | _ \<Rightarrow> None)"

definition options_of :: "payload \<Rightarrow> coption list option" where
  "options_of d = (case d of Content c \<Rightarrow> cc_options c | _ \<Rightarrow> None)"

definition destinations_of :: "payload \<Rightarrow> int list option" where
  "destinations_of d = (case d of Geo g \<Rightarrow> g_destinations g | _ \<Rightarrow> None)"

definition address_of :: "payload \<Rightarrow> string option" where
  "address_of d = (case d of Geo g \<Rightarrow> g_address g | _ \<Rightarrow> None)"

text \<open>\<open>p.sizes?.[0]?.price?.basic\<close> and \<open>p.sizes?.[0]?.price?.product\<close>.\<close>

definition first_size_price :: "dsize list option \<Rightarrow> dprice option" where
  "first_size_price ss = (case ss of None \<Rightarrow> None | Some [] \<Rightarrow> None | Some (s # _) \<Rightarrow> sz_price s)"

definition first_basic :: "dproduct \<Rightarrow> int option" where
  "first_basic p = (case first_size_price (dp_sizes p) of None \<Rightarrow> None | Some pr \<Rightarrow> p_basic pr)"

definition first_product :: "dproduct \<Rightarrow> int option" where
  "first_product p = (case first_size_price (dp_sizes p) of None \<Rightarrow> None | Some pr \<Rightarrow> p_product pr)"

text \<open>
  \<open>x ? x / 100 : null\<close>: kopeks to rubles, for a detail record and a list item. The
  kopek amount is the double its literal reads as.
\<close>

definition rubles :: "int option \<Rightarrow> double option" where
  "rubles x = (if truthy_int x then Some (fdiv (nearest (of_int (the x))) (Fin 100)) else None)"

section \<open>The world outside and the client\<close>

text \<open>
  What the browser answers: whether launching it and the warm-up navigation succeed
  (\<open>Some m\<close> is the exception's message), the page a navigation to a URL renders, the
  outcome of a \<open>fetch\<close> of a URL through the page, and the \<open>ru-RU\<close> formatting of a
  number.
\<close>

record world =
  launch :: "string option"
  goto :: "string \<Rightarrow> nav"
  fetch :: "string \<Rightarrow> error + payload"
  toLocaleString :: "rat \<Rightarrow> string"

record client =
  isInitialized :: bool
  dest :: string

definition constructor :: client where
  "constructor = \<lparr>isInitialized = False, dest = ''-1255987''\<rparr>"

text \<open>\<open>init\<close>: nothing when initialised already; otherwise the launch may throw.\<close>

definition init :: "world \<Rightarrow> client \<Rightarrow> error + client" where
  "init w c =
     (if isInitialized c then Inr c
      else case launch w of
             Some m \<Rightarrow> Inl (LaunchFailed m)
           | None \<Rightarrow> Inr (c\<lparr>isInitialized := True\<rparr>))"

text \<open>
  An operation yields its result or the exception it throws, the client afterwards, and
  the requests it issued itself, in order: the page navigation of a search and every
  \<open>apiRequest\<close>. (Each caller of \<open>apiRequest\<close> has awaited \<open>init\<close> before, so the
  \<open>init\<close> inside \<open>apiRequest\<close> returns at once.)
\<close>

datatype request = Goto string | Fetch string

record 'a outcome =
  result :: "error + 'a"
  after :: client
  trace :: "request list"

section \<open>search\<close>

text \<open>The options object of \<open>search\<close>; an absent field takes its default.\<close>

record search_options =
  so_sort :: "string option"
  so_page :: "double option"
  so_priceMin :: "double option"
  so_priceMax :: "double option"
  so_limit :: "int option"

text \<open>The summary record \<open>search\<close> builds for a card.\<close>

record summary =
  s_id :: "string option"
  s_url :: "string option"
  s_name :: "string option"
  s_brand :: "string option"
  s_price :: "rat option"
  s_priceFormatted :: "string option"
  s_image :: "string option"

text \<open>The price-range token: appended \<open>if (priceMin || priceMax)\<close>.\<close>

definition price_token :: "double option \<Rightarrow> double option \<Rightarrow> string" where
  "price_token priceMin priceMax =
     (if truthy_double priceMin \<or> truthy_double priceMax
      then ''&priceU='' @ number_string (fmul (or_double priceMin (Fin 0)) (Fin 100)) @ ''%3B''
             @ number_string (fmul (or_double priceMax (Fin 999999999)) (Fin 100))
      else [])"

definition searchUrl :: "string \<Rightarrow> search_options \<Rightarrow> string" where
  "searchUrl query opts =
     ''https://www.wildberries.ru/catalog/0/search.aspx?search='' @ encodeURIComponent query
       @ ''&sort='' @ (case so_sort opts of None \<Rightarrow> ''popular'' | Some s \<Rightarrow> s)
       @ ''&page='' @ number_string (case so_page opts of None \<Rightarrow> Fin 1 | Some p \<Rightarrow> p)
       @ price_token (so_priceMin opts) (so_priceMax opts)"

text \<open>The URL of the price/stock list descriptor for a zone code and joined ids.\<close>

definition listUrl :: "string \<Rightarrow> string list \<Rightarrow> string" where
  "listUrl d ids =
     ''https://www.wildberries.ru/__internal/u-card/cards/v4/list?appType=1&curr=rub&dest=''
       @ d @ ''&spp=30&lang=ru&nm='' @ join '';'' ids"

text \<open>The ruble sign after a formatted price: a space and U+20BD.\<close>

definition ruble_suffix :: string where
  "ruble_suffix = [CHR 0x20, CHR 0xE2, CHR 0x82, CHR 0xBD]"

text \<open>The price a card shows: \<open>walletPrice || finalPrice || anyPrice\<close>, then the loop.\<close>

definition price_node :: "card \<Rightarrow> ptext option" where
  "price_node cd =
     (case c_wallet_price cd of Some t \<Rightarrow> Some t
      | None \<Rightarrow> (case c_final_price cd of Some t \<Rightarrow> Some t | None \<Rightarrow> c_any_price cd))"

definition dom_price :: "card \<Rightarrow> nat option" where
  "dom_price cd =
     (case price_node cd of None \<Rightarrow> None
      | Some t \<Rightarrow> first_price (price_matches (trim t)))"

definition extract_card :: "world \<Rightarrow> card \<Rightarrow> summary" where
  "extract_card w cd =
     (let priceNum = dom_price cd
      in \<lparr>s_id = c_nm_id cd, s_url = c_href cd, s_name = c_name cd, s_brand = c_brand cd,
          s_price = map_option of_nat priceNum,
          s_priceFormatted =
            (case priceNum of None \<Rightarrow> None
             | Some n \<Rightarrow> Some (toLocaleString w (of_nat n) @ ruble_suffix)),
          s_image = c_img cd\<rparr>)"

text \<open>
  \<open>priceMap\<close>: an object keyed by the descriptor's ids as strings, filled in the order
  of the descriptor's products, a later entry replacing an earlier one.
\<close>

fun build_priceMap :: "(string \<rightharpoonup> rat) \<Rightarrow> dproduct list \<Rightarrow> (string \<rightharpoonup> rat)" where
  "build_priceMap m [] = m"
| "build_priceMap m (p # ps) =
     build_priceMap
       (if truthy_int (first_product p)
        then m(show_int (dp_id p) \<mapsto> of_int (the (first_product p)) / 100) else m) ps"

text \<open>The property key of \<open>product.id\<close>: a missing attribute reads as \<open>null\<close>.\<close>

definition key_of :: "string option \<Rightarrow> string" where
  "key_of i = (case i of None \<Rightarrow> ''null'' | Some s \<Rightarrow> s)"

definition update_price :: "world \<Rightarrow> (string \<rightharpoonup> rat) \<Rightarrow> summary \<Rightarrow> summary" where
  "update_price w m pr =
     (if \<not> truthy_rat (s_price pr) \<and> truthy_rat (m (key_of (s_id pr)))
      then pr\<lparr>s_price := m (key_of (s_id pr)),
              s_priceFormatted := Some (toLocaleString w (the (m (key_of (s_id pr)))) @ ruble_suffix)\<rparr>
      else pr)"

text \<open>
  The \<open>try\<close> block around the price request: a failed request, a \<open>null\<close> answer or an
  answer without \<open>products\<close> leaves the products as they are.
\<close>

definition backfill :: "world \<Rightarrow> error + payload \<Rightarrow> summary list \<Rightarrow> summary list" where
  "backfill w resp products =
     (case resp of
        Inl e \<Rightarrow> products
      | Inr JNull \<Rightarrow> products
      | Inr d \<Rightarrow>
          (case products_of d of
             None \<Rightarrow> products
           | Some ps \<Rightarrow> map (update_price w (build_priceMap Map.empty ps)) products))"

text \<open>What \<open>search\<close> does once the cards have appeared on the page.\<close>

definition search_cards :: "world \<Rightarrow> client \<Rightarrow> string \<Rightarrow> int \<Rightarrow> page \<Rightarrow> summary list outcome" where
  "search_cards w c1 url limit pg =
     (let products = map (extract_card w) (slice0 limit (cards pg));
          productsWithoutPrice =
            filter (\<lambda>p. \<not> truthy_rat (s_price p) \<and> truthy_str (s_id p)) products;
          apiUrl = listUrl (dest c1) (map (\<lambda>p. the (s_id p)) productsWithoutPrice)
      in (if productsWithoutPrice = []
          then \<lparr>result = Inr products, after = c1, trace = [Goto url]\<rparr>
          else \<lparr>result = Inr (backfill w (fetch w apiUrl) products), after = c1,
                trace = [Goto url, Fetch apiUrl]\<rparr>))"

definition search :: "world \<Rightarrow> client \<Rightarrow> string \<Rightarrow> search_options \<Rightarrow> summary list outcome" where
  "search w c query opts =
     (case init w c of
        Inl e \<Rightarrow> \<lparr>result = Inl e, after = c, trace = []\<rparr>
      | Inr c1 \<Rightarrow>
          (case goto w (searchUrl query opts) of
             NavError m \<Rightarrow>
               \<lparr>result = Inl (NavigationFailed m), after = c1,
                trace = [Goto (searchUrl query opts)]\<rparr>
           | Page pg \<Rightarrow>
               (if \<not> cards_appear pg
                then \<lparr>result = Inr [], after = c1, trace = [Goto (searchUrl query opts)]\<rparr>
                else search_cards w c1 (searchUrl query opts)
                       (case so_limit opts of None \<Rightarrow> 20 | Some l \<Rightarrow> l) pg)))"

section \<open>The search tool of the dispatcher\<close>

text \<open>The arguments of \<open>wb_search\<close>; only \<open>query\<close> is required.\<close>

record search_args =
  a_query :: string
  a_sort :: "string option"
  a_page :: "double option"
  a_priceMin :: "double option"
  a_priceMax :: "double option"
  a_limit :: "int option"

text \<open>\<open>Math.min(args.limit || 20, 100)\<close>.\<close>

definition effective_limit :: "int option \<Rightarrow> int" where
  "effective_limit l = min (or_int l 20) 100"

definition tool_options :: "search_args \<Rightarrow> search_options" where
  "tool_options args =
     \<lparr>so_sort = Some (or_str (a_sort args) ''popular''),
      so_page = Some (or_double (a_page args) (Fin 1)),
      so_priceMin = a_priceMin args,
      so_priceMax = a_priceMax args,
      so_limit = Some (effective_limit (a_limit args))\<rparr>"

definition wb_search :: "world \<Rightarrow> client \<Rightarrow> search_args \<Rightarrow> summary list outcome" where
  "wb_search w c args = search w c (a_query args) (tool_options args)"

section \<open>getProductDetails\<close>

record stock_out =
  ko_warehouse :: "int option"
  ko_qty :: "int option"
  ko_deliveryTime :: string

record size_out =
  zo_name :: string
  zo_optionId :: "int option"
  zo_price :: "double option"
  zo_stocks :: "stock_out list option"

record detail =
  d_id :: int
  d_name :: "string option"
  d_brand :: "string option"
  d_brandId :: "int option"
  d_supplier :: "string option"
  d_supplierId :: "int option"
  d_supplierRating :: "rat option"
  d_rating :: "rat option"
  d_feedbacks :: "int option"
  d_feedbackPoints :: "int option"
  d_colors :: "string list option"
  d_pics :: "int option"
  d_priceBasic :: "double option"
  d_priceFinal :: "double option"
  d_discount :: "double option"
  d_inStock :: "int option"
  d_sizes :: "size_out list option"
  d_deliveryTime :: "string option"
  d_description :: "string option"
  d_characteristics :: "coption list"
  d_url :: string

text \<open>The word for hours after a delivery window: a space and five Cyrillic letters.\<close>

definition hours_suffix :: string where
  "hours_suffix = [CHR 0x20, CHR 0xD1, CHR 0x87, CHR 0xD0, CHR 0xB0, CHR 0xD1, CHR 0x81,
                   CHR 0xD0, CHR 0xBE, CHR 0xD0, CHR 0xB2]"

definition detailUrl :: "string \<Rightarrow> int \<Rightarrow> string" where
  "detailUrl d productId =
     ''https://www.wildberries.ru/__internal/u-card/cards/v4/detail?appType=1&curr=rub&dest=''
       @ d @ ''&spp=30&lang=ru&nm='' @ show_int productId"

text \<open>\<open>Math.floor(productId / 100000)\<close> and \<open>Math.floor(productId / 1000)\<close>.\<close>

definition vol :: "int \<Rightarrow> int" where
  "vol productId = productId div 100000"

definition part :: "int \<Rightarrow> int" where
  "part productId = productId div 1000"

definition padStart2 :: "string \<Rightarrow> string" where
  "padStart2 s = replicate (2 - length s) (CHR ''0'') @ s"

definition cardUrl :: "nat \<Rightarrow> int \<Rightarrow> string" where
  "cardUrl b productId =
     ''https://basket-'' @ padStart2 (show_nat b) @ ''.wbbasket.ru/vol'' @ show_int (vol productId)
       @ ''/part'' @ show_int (part productId) @ ''/'' @ show_int productId
       @ ''/info/ru/card.json''"

text \<open>
  The loop over the basket hosts: one request per host, left at the first answer that
  is truthy; a request that throws, or answers \<open>null\<close>, moves on to the next host. It
  yields the content descriptor (\<open>None\<close> for \<open>null\<close>) and the URLs requested.
\<close>

fun probe :: "world \<Rightarrow> int \<Rightarrow> nat list \<Rightarrow> payload option \<times> string list" where
  "probe w productId [] = (None, [])"
| "probe w productId (b # bs) =
     (let next = probe w productId bs
      in (case fetch w (cardUrl b productId) of
            Inl e \<Rightarrow> (fst next, cardUrl b productId # snd next)
          | Inr JNull \<Rightarrow> (fst next, cardUrl b productId # snd next)
          | Inr d \<Rightarrow> (Some d, [cardUrl b productId])))"

text \<open>A host answers when its request returns a document that is truthy.\<close>

definition answers :: "world \<Rightarrow> int \<Rightarrow> nat \<Rightarrow> bool" where
  "answers w productId b =
     (case fetch w (cardUrl b productId) of Inl e \<Rightarrow> False | Inr d \<Rightarrow> d \<noteq> JNull)"

definition baskets :: "nat list" where
  "baskets = [1..<37]"

text \<open>\<open>detailData?.products?.[0]\<close>, where \<open>detailData\<close> is \<open>null\<close> after a failed request.\<close>

definition first_item :: "payload option \<Rightarrow> dproduct option" where
  "first_item detailData =
     (case detailData of None \<Rightarrow> None
      | Some d \<Rightarrow> (case products_of d of None \<Rightarrow> None | Some [] \<Rightarrow> None | Some (p # _) \<Rightarrow> Some p))"

definition delivery_window :: "int option \<Rightarrow> int option \<Rightarrow> string option" where
  "delivery_window t1 t2 =
     (if truthy_int t1 \<and> truthy_int t2
      then Some (show_int (the t1) @ ''-'' @ show_int (the t2) @ hours_suffix) else None)"

definition stock_of :: "dstock \<Rightarrow> stock_out" where
  "stock_of st =
     \<lparr>ko_warehouse = st_wh st, ko_qty = st_qty st,
      ko_deliveryTime = show_printed (st_time1 st) @ ''-'' @ show_printed (st_time2 st) @ hours_suffix\<rparr>"

definition size_of :: "dsize \<Rightarrow> size_out" where
  "size_of s =
     \<lparr>zo_name = or_str (sz_name s) ''One size'', zo_optionId = sz_optionId s,
      zo_price = rubles (case sz_price s of None \<Rightarrow> None | Some pr \<Rightarrow> p_product pr),
      zo_stocks = map_option (map stock_of) (sz_stocks s)\<rparr>"

definition productUrl :: "int \<Rightarrow> string" where
  "productUrl i = ''https://www.wildberries.ru/catalog/'' @ show_int i @ ''/detail.aspx''"

text \<open>The object literal \<open>result\<close>, with \<open>discount: null\<close>.\<close>

definition assemble :: "int \<Rightarrow> dproduct \<Rightarrow> payload option \<Rightarrow> detail" where
  "assemble productId product cardData =
     \<lparr>d_id = productId, d_name = dp_name product, d_brand = dp_brand product,
      d_brandId = dp_brandId product, d_supplier = dp_supplier product,
      d_supplierId = dp_supplierId product, d_supplierRating = dp_supplierRating product,
      d_rating = dp_rating product, d_feedbacks = dp_feedbacks product,
      d_feedbackPoints = dp_feedbackPoints product, d_colors = dp_colors product,
      d_pics = dp_pics product,
      d_priceBasic = rubles (first_basic product),
      d_priceFinal = rubles (first_product product),
      d_discount = None,
      d_inStock = dp_totalQuantity product,
      d_sizes = map_option (map size_of) (dp_sizes product),
      d_deliveryTime = delivery_window (dp_time1 product) (dp_time2 product),
      d_description =
        (case cardData of None \<Rightarrow> None
         | Some d \<Rightarrow> if truthy_str (description_of d) then description_of d else None),
      d_characteristics =
        (case cardData of None \<Rightarrow> []
         | Some d \<Rightarrow> (case options_of d of None \<Rightarrow> [] | Some os \<Rightarrow> os)),
      d_url = productUrl productId\<rparr>"

text \<open>The statement after the literal: \<open>if (result.priceBasic && result.priceFinal)\<close>.\<close>

definition calculate_discount :: "detail \<Rightarrow> detail" where
  "calculate_discount r =
     (if truthy_double (d_priceBasic r) \<and> truthy_double (d_priceFinal r)
      then r\<lparr>d_discount :=
               Some (math_round
                 (fmul (fsub (Fin 1) (fdiv (the (d_priceFinal r)) (the (d_priceBasic r))))
                    (Fin 100)))\<rparr>
      else r)"

definition getProductDetails :: "world \<Rightarrow> client \<Rightarrow> int \<Rightarrow> detail outcome" where
  "getProductDetails w c productId =
     (case init w c of
        Inl e \<Rightarrow> \<lparr>result = Inl e, after = c, trace = []\<rparr>
      | Inr c1 \<Rightarrow>
          (let url = detailUrl (dest c1) productId;
               detailData = (case fetch w url of Inl e \<Rightarrow> None | Inr d \<Rightarrow> Some d);
               probed = probe w productId baskets;
               cardData = fst probed;
               tr = Fetch url # map Fetch (snd probed)
           in (case first_item detailData of
                 None \<Rightarrow> \<lparr>result = Inl (ProductNotFound productId), after = c1, trace = tr\<rparr>
               | Some product \<Rightarrow>
                   \<lparr>result = Inr (calculate_discount (assemble productId product cardData)),
                    after = c1, trace = tr\<rparr>)))"

section \<open>getProductsList\<close>

record list_item =
  li_id :: int
  li_name :: "string option"
  li_brand :: "string option"
  li_supplier :: "string option"
  li_supplierRating :: "rat option"
  li_rating :: "rat option"
  li_feedbacks :: "int option"
  li_priceBasic :: "double option"
  li_priceFinal :: "double option"
  li_inStock :: "int option"
  li_deliveryTime :: "string option"
  li_url :: string

definition item_of :: "dproduct \<Rightarrow> list_item" where
  "item_of p =
     \<lparr>li_id = dp_id p, li_name = dp_name p, li_brand = dp_brand p, li_supplier = dp_supplier p,
      li_supplierRating = dp_supplierRating p, li_rating = dp_rating p,
      li_feedbacks = dp_feedbacks p,
      li_priceBasic = rubles (first_basic p), li_priceFinal = rubles (first_product p),
      li_inStock = dp_totalQuantity p,
      li_deliveryTime = delivery_window (dp_time1 p) (dp_time2 p),
      li_url = productUrl (dp_id p)\<rparr>"

text \<open>
  The request is not inside a \<open>try\<close>: its exception leaves the function, and so does the
  \<open>TypeError\<close> of reading \<open>products\<close> from a \<open>null\<close> answer.
\<close>

definition getProductsList :: "world \<Rightarrow> client \<Rightarrow> int list \<Rightarrow> list_item list outcome" where
  "getProductsList w c productIds =
     (case init w c of
        Inl e \<Rightarrow> \<lparr>result = Inl e, after = c, trace = []\<rparr>
      | Inr c1 \<Rightarrow>
          (let url = listUrl (dest c1) (map show_int productIds)
           in \<lparr>result =
                 (case fetch w url of
                    Inl e \<Rightarrow> Inl e
                  | Inr JNull \<Rightarrow> Inl (TypeError ''Cannot read properties of null (reading 'products')'')
                  | Inr d \<Rightarrow>
                      Inr (case products_of d of None \<Rightarrow> [] | Some ps \<Rightarrow> map item_of ps)),
               after = c1, trace = [Fetch url]\<rparr>))"

section \<open>setDestination\<close>

text \<open>
  The two objects \<open>setDestination\<close> returns: \<open>{success: true, address, dest,
  destinations}\<close> and \<open>{success: false, error}\<close>.
\<close>

datatype dest_result =
    Success "string option" string "int list"
  | Failure string

definition geoUrl :: "string \<Rightarrow> string" where
  "geoUrl address =
     ''https://www.wildberries.ru/__internal/user-geo-data/get-geo-info?currency=RUB&locale=ru&address=''
       @ encodeURIComponent address @ ''&dt=0&currentLocale=ru&b2bMode=false&newClient=true''"

text \<open>
  The \<open>try\<close> block: a request that throws and a \<open>null\<close> answer (a \<open>TypeError\<close> inside
  the block) both end in the \<open>catch\<close>, without an assignment to \<open>dest\<close>.
\<close>

definition setDestination :: "world \<Rightarrow> client \<Rightarrow> string \<Rightarrow> dest_result outcome" where
  "setDestination w c address =
     (case init w c of
        Inl e \<Rightarrow> \<lparr>result = Inl e, after = c, trace = []\<rparr>
      | Inr c1 \<Rightarrow>
          (let url = geoUrl address;
               failed = \<lparr>result = Inr (Failure ''Could not find destination''), after = c1,
                         trace = [Fetch url]\<rparr>
           in (case fetch w url of
                 Inl e \<Rightarrow> failed
               | Inr JNull \<Rightarrow> failed
               | Inr geoData \<Rightarrow>
                   (case destinations_of geoData of
                      None \<Rightarrow> failed
                    | Some [] \<Rightarrow> failed
                    | Some (z # zs) \<Rightarrow>
                        \<lparr>result = Inr (Success (address_of geoData) (show_int (last (z # zs))) (z # zs)),
                         after = c1\<lparr>dest := show_int (last (z # zs))\<rparr>,
                         trace = [Fetch url]\<rparr>))))"

section \<open>getFilters\<close>

text \<open>
  Either \<open>{filters: []}\<close>, or the query, the filter labels found, the values of the
  sort options and the names of the URL parameters (the Russian captions that go with
  the last two are constants of the source and are left out).
\<close>

datatype filters_result =
    NoFilters
  | Filters string "string list" "string list" "string list"

definition sortOptions :: "string list" where
  "sortOptions = [''popular'', ''rate'', ''priceup'', ''pricedown'', ''newly'']"

definition urlParams :: "string list" where
  "urlParams = [''priceU'', ''frating'', ''xsubject'', ''sort'', ''page'']"

definition filtersUrl :: "string \<Rightarrow> string" where
  "filtersUrl query =
     ''https://www.wildberries.ru/catalog/0/search.aspx?search='' @ encodeURIComponent query"

definition getFilters :: "world \<Rightarrow> client \<Rightarrow> string \<Rightarrow> filters_result outcome" where
  "getFilters w c query =
     (case init w c of
        Inl e \<Rightarrow> \<lparr>result = Inl e, after = c, trace = []\<rparr>
      | Inr c1 \<Rightarrow>
          (case goto w (filtersUrl query) of
             NavError m \<Rightarrow>
               \<lparr>result = Inl (NavigationFailed m), after = c1, trace = [Goto (filtersUrl query)]\<rparr>
           | Page pg \<Rightarrow>
               \<lparr>result =
                  Inr (if \<not> cards_appear pg then NoFilters
                       else Filters query
                              (uniq [] (filter (\<lambda>s. s \<noteq> [])
                                 (map (\<lambda>b. case b of None \<Rightarrow> [] | Some s \<Rightarrow> s) (filter_buttons pg))))
                              sortOptions urlParams),
                after = c1, trace = [Goto (filtersUrl query)]\<rparr>))"

section \<open>The JSON-RPC handler and the POST endpoint\<close>

text \<open>
  A \<open>tools/call\<close> names a tool and carries its arguments, well-formed for the tool's
  input schema; any other name is an unknown tool.
\<close>

datatype tool_call =
    WbSearch search_args
  | WbProductDetails int
  | WbProductsList "int list"
  | WbSetDestination string
  | WbGetFilters string
  | OtherTool string

datatype tool_output =
    SearchOut "summary list"
  | DetailOut detail
  | ListOut "list_item list"
  | DestOut dest_result
  | FiltersOut filters_result

text \<open>The inner \<open>switch (name)\<close>: the result or the exception, and the client afterwards.\<close>

definition call_tool :: "world \<Rightarrow> client \<Rightarrow> tool_call \<Rightarrow> (error + tool_output) \<times> client" where
  "call_tool w c call =
     (case call of
        WbSearch args \<Rightarrow>
          (let r = wb_search w c args in (map_sum (\<lambda>e. e) SearchOut (result r), after r))
      | WbProductDetails productId \<Rightarrow>
          (let r = getProductDetails w c productId
           in (map_sum (\<lambda>e. e) DetailOut (result r), after r))
      | WbProductsList productIds \<Rightarrow>
          (let r = getProductsList w c productIds
           in (map_sum (\<lambda>e. e) ListOut (result r), after r))
      | WbSetDestination address \<Rightarrow>
          (let r = setDestination w c address
           in (map_sum (\<lambda>e. e) DestOut (result r), after r))
      | WbGetFilters query \<Rightarrow>
          (let r = getFilters w c query
           in (map_sum (\<lambda>e. e) FiltersOut (result r), after r))
      | OtherTool name \<Rightarrow> (Inl (UnknownTool name), c))"

text \<open>
  A request: its method, its \<open>params\<close> (read by \<open>tools/call\<close> only; \<open>None\<close> when the
  request has none) and its \<open>id\<close>, absent in a notification.
\<close>

record rpc_request =
  rq_method :: string
  rq_params :: "tool_call option"
  rq_id :: "int option"

datatype rpc_result =
    InitializeResult
  | ToolsListResult "string list"
  | ToolCallResult tool_output

datatype rpc_response =
    Response "int option" rpc_result
  | ErrorResponse "int option" int string

definition TOOLS :: "string list" where
  "TOOLS = [''wb_search'', ''wb_product_details'', ''wb_products_list'',
            ''wb_set_destination'', ''wb_get_filters'']"

text \<open>
  \<open>handleJsonRpcRequest\<close>: the response, or \<open>None\<close> for \<open>null\<close>, and the client
  afterwards. Destructuring missing \<open>params\<close> throws inside the \<open>try\<close>.
\<close>

definition handleJsonRpcRequest ::
  "world \<Rightarrow> client \<Rightarrow> rpc_request \<Rightarrow> rpc_response option \<times> client" where
  "handleJsonRpcRequest w c request =
     (if rq_method request = ''initialize''
      then (Some (Response (rq_id request) InitializeResult), c)
      else if rq_method request = ''tools/list''
      then (Some (Response (rq_id request) (ToolsListResult TOOLS)), c)
      else if rq_method request = ''tools/call''
      then (case rq_params request of
              None \<Rightarrow>
                (Some (ErrorResponse (rq_id request) (- 32603)
                   (message (TypeError ''Cannot destructure property 'name' of 'params' as it is undefined.''))), c)
            | Some call \<Rightarrow>
                (let r = call_tool w c call
                 in (case fst r of
                       Inl e \<Rightarrow> (Some (ErrorResponse (rq_id request) (- 32603) (message e)), snd r)
                     | Inr out \<Rightarrow> (Some (Response (rq_id request) (ToolCallResult out)), snd r))))
      else if rq_method request = ''notifications/initialized''
      then (None, c)
      else (Some (ErrorResponse (rq_id request) (- 32601)
              (''Method not found: '' @ rq_method request)), c))"

text \<open>The \<open>for\<close> loop of the POST handler over the requests.\<close>

fun process :: "world \<Rightarrow> client \<Rightarrow> rpc_request list \<Rightarrow> rpc_response list \<times> client" where
  "process w c [] = ([], c)"
| "process w c (request # requests) =
     (let handled = handleJsonRpcRequest w c request;
          rest = process w (snd handled) requests
      in (case fst handled of
            None \<Rightarrow> rest
          | Some response \<Rightarrow> (response # fst rest, snd rest)))"

text \<open>
  A POST: the \<open>Mcp-Session-Id\<close> header and the body, one request or an array of them.
  The server holds the client and the session table (identifier to creation time). The
  identifier \<open>generateSessionId\<close> draws and the clock are inputs.
\<close>

datatype body = Single rpc_request | Batch "rpc_request list"

record http_request =
  h_session :: "string option"
  h_body :: body

record server =
  sv_client :: client
  sv_sessions :: "string \<rightharpoonup> nat"

datatype http_body = NoBody | Json rpc_response | JsonArray "rpc_response list"

record http_response =
  rs_status :: nat
  rs_session :: "string option"
  rs_body :: http_body

definition requests_of :: "body \<Rightarrow> rpc_request list" where
  "requests_of b = (case b of Batch rs \<Rightarrow> rs | Single r \<Rightarrow> [r])"

definition mints :: "http_request \<Rightarrow> bool" where
  "mints req =
     (list_ex (\<lambda>r. rq_method r = ''initialize'') (requests_of (h_body req))
      \<and> \<not> truthy_str (h_session req))"

definition post_mcp :: "world \<Rightarrow> string \<Rightarrow> nat \<Rightarrow> server \<Rightarrow> http_request \<Rightarrow> http_response \<times> server" where
  "post_mcp w newSessionId now sv req =
     (let processed = process w (sv_client sv) (requests_of (h_body req));
          responses = fst processed;
          c1 = snd processed
      in (\<lparr>rs_status = (if responses = [] then 202 else 200),
           rs_session = (if mints req then Some newSessionId else None),
           rs_body = (case responses of [] \<Rightarrow> NoBody | [r] \<Rightarrow> Json r | _ \<Rightarrow> JsonArray responses)\<rparr>,
          \<lparr>sv_client = c1,
           sv_sessions = (if mints req then (sv_sessions sv)(newSessionId \<mapsto> now)
                          else sv_sessions sv)\<rparr>))"

text \<open>The responses a body carries, and the request a response answers (by \<open>id\<close>).\<close>

definition carried :: "http_body \<Rightarrow> rpc_response list" where
  "carried b = (case b of NoBody \<Rightarrow> [] | Json r \<Rightarrow> [r] | JsonArray rs \<Rightarrow> rs)"

definition response_id :: "rpc_response \<Rightarrow> int option" where
  "response_id r = (case r of Response i _ \<Rightarrow> i | ErrorResponse i _ _ \<Rightarrow> i)"

section \<open>Example inputs\<close>

text \<open>
  A small shop for the concrete evaluations below. The search for \<open>lamp\<close> renders two
  cards: one shows the price 750, the other shows none and is article 202. The
  descriptor knows article 202 at 200 rubles basic and 150 rubles final, its content
  descriptor lies on basket host 3, and the geo lookup knows Kazan. Article 303 is
  known without sizes and so without prices. For article 404 the descriptor answers
  with no product. Every other search renders no card and every
  other request fails.
\<close>

definition card_750 :: card where
  "card_750 =
     \<lparr>c_nm_id = Some ''101'', c_href = Some ''https://www.wildberries.ru/catalog/101/detail.aspx'',
      c_name = Some ''Desk lamp'', c_brand = Some ''Lumen'',
      c_wallet_price = None, c_final_price = None,
      c_any_price = Some [Dg D7, Dg D5, Dg D0, Ws, Oc], c_img = None\<rparr>"

definition card_202 :: card where
  "card_202 =
     \<lparr>c_nm_id = Some ''202'', c_href = Some ''https://www.wildberries.ru/catalog/202/detail.aspx'',
      c_name = Some ''Floor lamp'', c_brand = Some ''Lumen'',
      c_wallet_price = None, c_final_price = None, c_any_price = None, c_img = None\<rparr>"

definition summary_750 :: summary where
  "summary_750 =
     \<lparr>s_id = Some ''101'', s_url = Some ''https://www.wildberries.ru/catalog/101/detail.aspx'',
      s_name = Some ''Desk lamp'', s_brand = Some ''Lumen'', s_price = Some 750,
      s_priceFormatted = Some (''750'' @ ruble_suffix), s_image = None\<rparr>"

definition summary_202 :: summary where
  "summary_202 =
     \<lparr>s_id = Some ''202'', s_url = Some ''https://www.wildberries.ru/catalog/202/detail.aspx'',
      s_name = Some ''Floor lamp'', s_brand = Some ''Lumen'', s_price = Some 150,
      s_priceFormatted = Some (''150'' @ ruble_suffix), s_image = None\<rparr>"

definition lamp_page :: page where
  "lamp_page = \<lparr>cards_appear = True, cards = [card_750, card_202, card_750],
                 filter_buttons = [Some ''Brand'', None, Some ''Price'', Some ''Brand'']\<rparr>"

definition empty_page :: page where
  "empty_page = \<lparr>cards_appear = False, cards = [], filter_buttons = []\<rparr>"

definition product_202 :: dproduct where
  "product_202 =
     \<lparr>dp_id = 202, dp_name = Some ''Floor lamp'', dp_brand = Some ''Lumen'', dp_brandId = Some 7,
      dp_supplier = Some ''Lumen Ltd'', dp_supplierId = Some 9, dp_supplierRating = Some 4,
      dp_rating = Some 5, dp_feedbacks = Some 12, dp_feedbackPoints = None, dp_colors = None,
      dp_pics = Some 3, dp_totalQuantity = Some 40, dp_time1 = Some 2, dp_time2 = Some 30,
      dp_sizes = Some [\<lparr>sz_name = None, sz_optionId = Some 1,
                        sz_price = Some \<lparr>p_basic = Some 20000, p_product = Some 15000\<rparr>,
                        sz_stocks = None\<rparr>]\<rparr>"

definition product_303 :: dproduct where
  "product_303 = product_202\<lparr>dp_id := 303, dp_name := Some ''Wall lamp'', dp_sizes := None\<rparr>"

definition detail_202 :: detail where
  "detail_202 =
     \<lparr>d_id = 202, d_name = Some ''Floor lamp'', d_brand = Some ''Lumen'', d_brandId = Some 7,
      d_supplier = Some ''Lumen Ltd'', d_supplierId = Some 9, d_supplierRating = Some 4,
      d_rating = Some 5, d_feedbacks = Some 12, d_feedbackPoints = None, d_colors = None,
      d_pics = Some 3, d_priceBasic = Some (Fin 200), d_priceFinal = Some (Fin 150),
      d_discount = Some (Fin 25), d_inStock = Some 40,
      d_sizes = Some [\<lparr>zo_name = ''One size'', zo_optionId = Some 1, zo_price = Some (Fin 150),
                       zo_stocks = None\<rparr>],
      d_deliveryTime = Some (''2-30'' @ hours_suffix),
      d_description = Some ''A lamp for the floor'',
      d_characteristics = [\<lparr>o_name = Some ''Colour'', o_value = Some ''white''\<rparr>],
      d_url = ''https://www.wildberries.ru/catalog/202/detail.aspx''\<rparr>"

definition content_202 :: content_card where
  "content_202 =
     \<lparr>cc_description = Some ''A lamp for the floor'',
      cc_options = Some [\<lparr>o_name = Some ''Colour'', o_value = Some ''white''\<rparr>]\<rparr>"

definition kazan :: geo_info where
  "kazan = \<lparr>g_address = Some ''Kazan'', g_destinations = Some [- 1029256, - 2133463]\<rparr>"

definition shop_goto :: "string \<Rightarrow> nav" where
  "shop_goto u =
     (if take (length (filtersUrl ''lamp'')) u = filtersUrl ''lamp''
      then Page lamp_page else Page empty_page)"

definition shop_fetch :: "string \<Rightarrow> error + payload" where
  "shop_fetch u =
     (if u = detailUrl ''-1255987'' 202 \<or> u = listUrl ''-1255987'' [''202'']
      then Inr (Descriptor (Some [product_202]))
      else if u = detailUrl ''-1255987'' 404 \<or> u = listUrl ''-1255987'' [''404'']
      then Inr (Descriptor (Some []))
      else if u = detailUrl ''-1255987'' 303 then Inr (Descriptor (Some [product_303]))
      else if u = cardUrl 3 202 then Inr (Content content_202)
      else if u = geoUrl ''Kazan'' then Inr (Geo kazan)
      else Inl (FetchFailed ''HTTP 404''))"

definition shop :: world where
  "shop = \<lparr>launch = None, goto = shop_goto, fetch = shop_fetch,
            toLocaleString = (\<lambda>q. show_int \<lfloor>q\<rfloor>)\<rparr>"

text \<open>The same shop when no basket host holds the content descriptor.\<close>

definition shop_without_content :: world where
  "shop_without_content =
     shop\<lparr>fetch := (\<lambda>u. if u = detailUrl ''-1255987'' 202
                          then Inr (Descriptor (Some [product_202]))
                          else Inl (FetchFailed ''HTTP 404''))\<rparr>"

text \<open>
  A shop that answers every request with the descriptor of one article, priced at the
  given kopek amounts (basic and final).
\<close>

definition priced :: "int \<Rightarrow> int \<Rightarrow> dproduct" where
  "priced basic final =
     product_202\<lparr>dp_sizes := Some [\<lparr>sz_name = None, sz_optionId = Some 1,
                                      sz_price = Some \<lparr>p_basic = Some basic, p_product = Some final\<rparr>,
                                      sz_stocks = None\<rparr>]\<rparr>"

definition shop_selling :: "dproduct \<Rightarrow> world" where
  "shop_selling p = shop\<lparr>fetch := (\<lambda>u. Inr (Descriptor (Some [p])))\<rparr>"

text \<open>The same shop when every request fails.\<close>

definition shop_offline :: world where
  "shop_offline = shop\<lparr>fetch := (\<lambda>u. Inl (FetchFailed ''HTTP 404''))\<rparr>"

definition lamp_args :: "int option \<Rightarrow> search_args" where
  "lamp_args l =
     \<lparr>a_query = ''lamp'', a_sort = None, a_page = None, a_priceMin = None, a_priceMax = None,
      a_limit = l\<rparr>"

definition no_options :: search_options where
  "no_options = \<lparr>so_sort = None, so_page = None, so_priceMin = None, so_priceMax = None,
                  so_limit = None\<rparr>"

text \<open>
  A batch as a client sends it at the start of a session: \<open>initialize\<close>, the
  notification that it is initialised, and \<open>tools/list\<close>; and a server that has not
  seen a request yet.
\<close>

definition req_initialize :: rpc_request where
  "req_initialize = \<lparr>rq_method = ''initialize'', rq_params = None, rq_id = Some 1\<rparr>"

definition req_initialized :: rpc_request where
  "req_initialized = \<lparr>rq_method = ''notifications/initialized'', rq_params = None, rq_id = None\<rparr>"

definition req_tools_list :: rpc_request where
  "req_tools_list = \<lparr>rq_method = ''tools/list'', rq_params = None, rq_id = Some 2\<rparr>"

text \<open>Another notification of a client: it has no \<open>id\<close> and expects no response.\<close>

definition req_cancelled :: rpc_request where
  "req_cancelled = \<lparr>rq_method = ''notifications/cancelled'', rq_params = None, rq_id = None\<rparr>"

definition first_post :: http_request where
  "first_post = \<lparr>h_session = None,
                  h_body = Batch [req_initialize, req_initialized, req_tools_list]\<rparr>"

definition new_server :: server where
  "new_server = \<lparr>sv_client = constructor, sv_sessions = Map.empty\<rparr>"

text \<open>The record \<open>getProductDetails\<close> builds for article 7 in a shop selling one article.\<close>

definition sold :: "dproduct \<Rightarrow> detail" where
  "sold p = calculate_discount (assemble 7 p (Some (Descriptor (Some [p]))))"

section \<open>Evaluation rules\<close>

lemma floor_rat_quotient: "\<lfloor>(of_int a / of_int b :: rat)\<rfloor> = a div b"
  by (simp flip: Fract_of_int_quotient)

lemma floor_rat_numeral: "\<lfloor>(numeral a / numeral b :: rat)\<rfloor> = numeral a div numeral b"
  using floor_rat_quotient [of "numeral a" "numeral b"] by simp

lemma ceiling_rat_numeral:
  "\<lceil>(numeral a / numeral b :: rat)\<rceil> = - ((- numeral a) div numeral b)"
  using floor_rat_quotient [of "- numeral a" "numeral b"] by (simp add: ceiling_def)

lemmas double_defs = nearest_def ulp_def exponent2_def exponent10_def pow_def round_even_def
  bits.simps dlen.simps digits.simps is_nan_def is_inf_def is_zero_def positive_def
  rational_def infinity_def fsub_def fmul_def fdiv_def math_round_def truthy_double_def
  or_double_def floor_rat_numeral ceiling_rat_numeral

lemma replicate_numeral: "replicate (numeral k) x = x # replicate (pred_numeral k) x"
  by (simp add: numeral_eq_Suc)

lemmas printing_defs = number_string_def format_number_def Let_def upt_conv_Cons
  replicate_numeral

lemma number_string_one: "number_string (Fin 1) = ''1''"
  by (simp add: double_defs printing_defs)

lemmas js_defs = truthy_int_def truthy_rat_def truthy_str_def or_int_def or_str_def
  show_int_def show_printed_def slice0_def

lemmas search_defs = wb_search_def tool_options_def effective_limit_def search_def init_def
  search_cards_def extract_card_def dom_price_def price_node_def trim_def dg_or_ws_def
  parseInt_def backfill_def products_of_def update_price_def key_of_def first_product_def
  first_size_price_def searchUrl_def price_token_def listUrl_def encodeURIComponent_def
  unreserved_def percent_def truthy_double_def or_double_def is_nan_def is_zero_def
  number_string_one

lemmas shop_defs = shop_def shop_goto_def shop_fetch_def lamp_page_def empty_page_def
  card_750_def card_202_def product_202_def content_202_def kazan_def constructor_def
  lamp_args_def no_options_def filtersUrl_def detailUrl_def cardUrl_def geoUrl_def
  summary_750_def summary_202_def

section \<open>The limit of a search\<close>

lemma slice0_length: "0 \<le> n \<Longrightarrow> int (length (slice0 n xs)) \<le> n"
  by (simp add: slice0_def Let_def)

lemma backfill_length: "length (backfill w r ps) = length ps"
  by (simp add: backfill_def split: sum.splits payload.splits option.splits)

lemma search_length:
  assumes "result (search w c q opts) = Inr ps" and "so_limit opts = Some l" and "0 \<le> l"
  shows "int (length ps) \<le> l"
  using assms
  by (auto simp: search_def search_cards_def Let_def backfill_length
      split: sum.splits nav.splits if_splits intro: slice0_length)

lemma effective_limit_absent: "effective_limit None = 20"
  by (simp add: effective_limit_def or_int_def truthy_int_def)

lemma effective_limit_zero: "effective_limit (Some 0) = 20"
  by (simp add: effective_limit_def or_int_def truthy_int_def)

lemma effective_limit_given: "l \<noteq> 0 \<Longrightarrow> effective_limit (Some l) = min l 100"
  by (simp add: effective_limit_def or_int_def truthy_int_def)

text \<open>
  Claim C1, as the code has it. The effective limit of the search tool is 20 when
  \<open>limit\<close> is absent or 0, and the smaller of \<open>limit\<close> and 100 when \<open>limit\<close> is
  positive. A search that returns then returns at most as many products as the effective
  limit: at most 20 in the first case, and at most \<open>limit\<close> and at most 100 in the
  second.
\<close>

theorem wb_search_limit:
  assumes "result (wb_search w c args) = Inr ps"
  shows "(a_limit args = None \<or> a_limit args = Some 0 \<longrightarrow>
            effective_limit (a_limit args) = 20 \<and> length ps \<le> 20)
       \<and> (\<forall>l. a_limit args = Some l \<and> 0 < l \<longrightarrow>
            effective_limit (a_limit args) = min l 100
            \<and> int (length ps) \<le> l \<and> length ps \<le> 100)"
proof -
  have opts: "so_limit (tool_options args) = Some (effective_limit (a_limit args))"
    by (simp add: tool_options_def)
  have res: "result (search w c (a_query args) (tool_options args)) = Inr ps"
    using assms by (simp add: wb_search_def)
  have bound: "0 \<le> effective_limit (a_limit args) \<Longrightarrow>
      int (length ps) \<le> effective_limit (a_limit args)"
    using search_length [OF res opts] .
  show ?thesis
  proof (intro conjI allI impI)
    assume "a_limit args = None \<or> a_limit args = Some 0"
    then show e: "effective_limit (a_limit args) = 20"
      by (auto simp: effective_limit_absent effective_limit_zero)
    from bound e show "length ps \<le> 20" by simp
  next
    fix l assume l: "a_limit args = Some l \<and> 0 < l"
    then show e: "effective_limit (a_limit args) = min l 100"
      by (simp add: effective_limit_given)
    from bound e l show "int (length ps) \<le> l" by simp
    from bound e l show "length ps \<le> 100" by simp
  qed
qed

text \<open>
  The search for \<open>lamp\<close> renders three cards; with \<open>limit\<close> 2 the tool returns the
  first two.
\<close>

theorem wb_search_limit_witness:
  "result (wb_search shop constructor (lamp_args (Some 2))) = Inr [summary_750, summary_202]
   \<and> effective_limit (Some 2) = 2
   \<and> int (length [summary_750, summary_202]) \<le> 2
   \<and> length [summary_750, summary_202] \<le> 100"
proof -
  have run: "result (wb_search shop constructor (lamp_args (Some 2)))
               = Inr [summary_750, summary_202]"
    by (simp add: js_defs search_defs shop_defs show_nat.simps Let_def)
  have given: "a_limit (lamp_args (Some 2)) = Some 2 \<and> (0::int) < 2"
    by (simp add: lamp_args_def)
  from wb_search_limit [OF run] given run show ?thesis
    by simp
qed

text \<open>
  Claim C1 as stated fails where the requested limit is 0: the tool takes the default
  of 20 and returns all three cards of the page, more than the limit asked for.
\<close>

theorem wb_search_limit_counterexample:
  "a_limit (lamp_args (Some 0)) = Some 0
   \<and> result (wb_search shop constructor (lamp_args (Some 0)))
       = Inr [summary_750, summary_202, summary_750]
   \<and> \<not> int (length [summary_750, summary_202, summary_750]) \<le> 0"
  by (simp add: js_defs search_defs shop_defs show_nat.simps Let_def)

text \<open>
  A negative limit is passed on to \<open>slice\<close>, which then counts from the end of the
  cards: with \<open>limit\<close> \<open>-1\<close> the tool returns all cards but the last.
\<close>

lemma wb_search_negative_limit:
  "result (wb_search shop constructor (lamp_args (Some (- 1)))) = Inr [summary_750, summary_202]"
  by (simp add: js_defs search_defs shop_defs show_nat.simps Let_def)

section \<open>The price-range token\<close>

lemma price_token_appended:
  "price_token mn mx \<noteq> [] \<longleftrightarrow> truthy_double mn \<or> truthy_double mx"
  by (simp add: price_token_def)

lemma search_navigates:
  "init w c = Inr c1 \<Longrightarrow> hd (trace (search w c q opts)) = Goto (searchUrl q opts)"
  by (simp add: search_def search_cards_def Let_def split: nav.splits)

text \<open>
  Claim C9, as the code has it. A search navigates to the search URL, which ends in the
  price-range token. The token is appended exactly when at least one of \<open>priceMin\<close>
  and \<open>priceMax\<close> is supplied and truthy, that is neither 0 nor NaN. When appended, it
  is \<open>&priceU=\<close>, the lower bound, \<open>%3B\<close> (the encoded semicolon) and the upper
  bound, each the product of a number of rubles and 100 in double arithmetic, printed as
  JavaScript prints a number: the rubles of the lower bound are \<open>priceMin\<close>, or 0 when
  it is absent or not truthy; those of the upper bound are \<open>priceMax\<close>, or 999999999
  when it is absent or not truthy.
\<close>

theorem search_price_token:
  assumes "init w c = Inr c1"
  shows "hd (trace (search w c q opts)) = Goto (searchUrl q opts)
    \<and> searchUrl q opts
        = searchUrl q (opts\<lparr>so_priceMin := None, so_priceMax := None\<rparr>)
          @ price_token (so_priceMin opts) (so_priceMax opts)
    \<and> (price_token (so_priceMin opts) (so_priceMax opts) \<noteq> [] \<longleftrightarrow>
          (\<exists>x. so_priceMin opts = Some x \<and> x \<noteq> Fin 0 \<and> x \<noteq> NaN)
          \<or> (\<exists>x. so_priceMax opts = Some x \<and> x \<noteq> Fin 0 \<and> x \<noteq> NaN))
    \<and> (price_token (so_priceMin opts) (so_priceMax opts) \<noteq> [] \<longrightarrow>
          price_token (so_priceMin opts) (so_priceMax opts)
            = ''&priceU=''
              @ number_string
                  (fmul (case so_priceMin opts of None \<Rightarrow> Fin 0
                         | Some x \<Rightarrow> if x = Fin 0 \<or> x = NaN then Fin 0 else x) (Fin 100))
              @ ''%3B''
              @ number_string
                  (fmul (case so_priceMax opts of None \<Rightarrow> Fin 999999999
                         | Some x \<Rightarrow> if x = Fin 0 \<or> x = NaN then Fin 999999999 else x) (Fin 100)))"
proof (intro conjI)
  show "hd (trace (search w c q opts)) = Goto (searchUrl q opts)"
    using assms by (rule search_navigates)
  show "searchUrl q opts
        = searchUrl q (opts\<lparr>so_priceMin := None, so_priceMax := None\<rparr>)
          @ price_token (so_priceMin opts) (so_priceMax opts)"
    by (simp add: searchUrl_def price_token_def truthy_double_def)
  show "price_token (so_priceMin opts) (so_priceMax opts) \<noteq> [] \<longleftrightarrow>
          (\<exists>x. so_priceMin opts = Some x \<and> x \<noteq> Fin 0 \<and> x \<noteq> NaN)
          \<or> (\<exists>x. so_priceMax opts = Some x \<and> x \<noteq> Fin 0 \<and> x \<noteq> NaN)"
    by (auto simp: price_token_appended truthy_double_def is_nan_def is_zero_def
        split: option.splits)
  show "price_token (so_priceMin opts) (so_priceMax opts) \<noteq> [] \<longrightarrow>
          price_token (so_priceMin opts) (so_priceMax opts)
            = ''&priceU=''
              @ number_string
                  (fmul (case so_priceMin opts of None \<Rightarrow> Fin 0
                         | Some x \<Rightarrow> if x = Fin 0 \<or> x = NaN then Fin 0 else x) (Fin 100))
              @ ''%3B''
              @ number_string
                  (fmul (case so_priceMax opts of None \<Rightarrow> Fin 999999999
                         | Some x \<Rightarrow> if x = Fin 0 \<or> x = NaN then Fin 999999999 else x) (Fin 100))"
    by (auto simp: price_token_def truthy_double_def or_double_def is_nan_def is_zero_def
        split: option.splits)
qed

text \<open>
  A search for lamps from 5 rubles up asks for the range 500 to 99999999900. A search
  from 19.99 rubles up to 1e19 rubles asks for what the doubles give: 19.99 times 100 is
  1998.9999999999998, and 1e19 times 100 prints as 1e+21.
\<close>

lemma printed_bounds:
  "number_string (fmul (Fin 5) (Fin 100)) = ''500''"
  "number_string (fmul (Fin 999999999) (Fin 100)) = ''99999999900''"
  "number_string (fmul (nearest (1999 / 100)) (Fin 100)) = ''1998.9999999999998''"
  "number_string (fmul (nearest 10000000000000000000) (Fin 100)) = ''1e+21''"
  by (simp_all add: double_defs printing_defs)

theorem search_price_token_witness:
  "init shop constructor = Inr (constructor\<lparr>isInitialized := True\<rparr>)
   \<and> hd (trace (search shop constructor ''lamp'' (no_options\<lparr>so_priceMin := Some (Fin 5)\<rparr>)))
       = Goto ''https://www.wildberries.ru/catalog/0/search.aspx?search=lamp&sort=popular&page=1&priceU=500%3B99999999900''
   \<and> price_token (Some (Fin 5)) None = ''&priceU=500%3B99999999900''
   \<and> price_token (Some (nearest (1999 / 100))) (Some (nearest 10000000000000000000))
       = ''&priceU=1998.9999999999998%3B1e+21''"
proof -
  have ready: "init shop constructor = Inr (constructor\<lparr>isInitialized := True\<rparr>)"
    by (simp add: init_def shop_def constructor_def)
  let ?five = "no_options\<lparr>so_priceMin := Some (Fin 5)\<rparr>"
  let ?odd = "no_options\<lparr>so_priceMin := Some (nearest (1999 / 100)),
                          so_priceMax := Some (nearest 10000000000000000000)\<rparr>"
  have plain: "searchUrl ''lamp'' (?five\<lparr>so_priceMin := None, so_priceMax := None\<rparr>)
      = ''https://www.wildberries.ru/catalog/0/search.aspx?search=lamp&sort=popular&page=1''"
    by (simp add: js_defs search_defs no_options_def show_nat.simps)
  have given: "so_priceMin ?five = Some (Fin 5) \<and> so_priceMax ?five = None"
    by (simp add: no_options_def)
  have given': "so_priceMin ?odd = Some (nearest (1999 / 100))
      \<and> so_priceMax ?odd = Some (nearest 10000000000000000000)"
    by (simp add: no_options_def)
  have finite: "nearest (1999 / 100) \<noteq> Fin 0 \<and> nearest (1999 / 100) \<noteq> NaN
      \<and> nearest 10000000000000000000 \<noteq> Fin 0 \<and> nearest 10000000000000000000 \<noteq> NaN"
    by (simp add: double_defs)
  note five = search_price_token [OF ready, of "''lamp''" ?five]
  note odd = search_price_token [OF ready, of "''lamp''" ?odd]
  from five given
  have token: "price_token (Some (Fin 5)) None = ''&priceU=500%3B99999999900''"
    by (simp add: printed_bounds)
  from five given plain token
  have url: "hd (trace (search shop constructor ''lamp'' ?five))
      = Goto ''https://www.wildberries.ru/catalog/0/search.aspx?search=lamp&sort=popular&page=1&priceU=500%3B99999999900''"
    by simp
  from odd given' finite
  have token': "price_token (Some (nearest (1999 / 100))) (Some (nearest 10000000000000000000))
      = ''&priceU=1998.9999999999998%3B1e+21''"
    by (simp add: printed_bounds)
  from ready url token token' show ?thesis
    by simp
qed

text \<open>
  Claim C9 as stated fails where a bound is supplied as 0: with \<open>priceMin\<close> 0 and no
  \<open>priceMax\<close> the URL carries no price-range token.
\<close>

theorem search_price_token_counterexample:
  "so_priceMin (no_options\<lparr>so_priceMin := Some (Fin 0)\<rparr>) = Some (Fin 0)
   \<and> searchUrl ''lamp'' (no_options\<lparr>so_priceMin := Some (Fin 0)\<rparr>)
       = ''https://www.wildberries.ru/catalog/0/search.aspx?search=lamp&sort=popular&page=1''"
  by (simp add: js_defs search_defs no_options_def show_nat.simps)

section \<open>No card within the timeout\<close>

text \<open>
  Claim C6. When the browser session is ready and the results page of a query shows no
  product card within the wait timeout, \<open>search\<close> returns the empty list and
  \<open>getFilters\<close> returns the empty filter set \<open>{filters: []}\<close>, both as results.
\<close>

theorem no_cards_is_empty_result:
  assumes "init w c = Inr c1"
  shows "(\<forall>pg. goto w (searchUrl q opts) = Page pg \<and> \<not> cards_appear pg \<longrightarrow>
            result (search w c q opts) = Inr [])
       \<and> (\<forall>pg. goto w (filtersUrl q) = Page pg \<and> \<not> cards_appear pg \<longrightarrow>
            result (getFilters w c q) = Inr NoFilters)"
  using assms by (simp add: search_def getFilters_def)

text \<open>The shop renders no card for the query \<open>lam\<close>.\<close>

theorem no_cards_is_empty_result_witness:
  "init shop constructor = Inr (constructor\<lparr>isInitialized := True\<rparr>)
   \<and> goto shop (searchUrl ''lam'' no_options) = Page empty_page
   \<and> goto shop (filtersUrl ''lam'') = Page empty_page
   \<and> \<not> cards_appear empty_page
   \<and> result (search shop constructor ''lam'' no_options) = Inr []
   \<and> result (getFilters shop constructor ''lam'') = Inr NoFilters"
proof -
  have ready: "init shop constructor = Inr (constructor\<lparr>isInitialized := True\<rparr>)"
    by (simp add: init_def shop_def constructor_def)
  have p1: "goto shop (searchUrl ''lam'' no_options) = Page empty_page"
    by (simp add: js_defs search_defs shop_defs show_nat.simps)
  have p2: "goto shop (filtersUrl ''lam'') = Page empty_page"
    by (simp add: js_defs search_defs shop_defs show_nat.simps)
  have p3: "\<not> cards_appear empty_page"
    by (simp add: empty_page_def)
  from no_cards_is_empty_result [OF ready, of "''lam''" no_options] p1 p2 p3 ready
  show ?thesis by simp
qed

section \<open>setDestination\<close>

text \<open>
  Claim C5. When the browser session is ready and the geo lookup for an address answers
  with a candidate list that is not empty, \<open>setDestination\<close> stores the last candidate,
  as a string, as the zone code and returns the resolved address, that zone code and the
  whole list. In every other case (the lookup throws, answers \<open>null\<close>, has no candidate
  list or an empty one) it returns the failure object and leaves the zone code as it was.
\<close>

theorem setDestination_outcome:
  assumes "init w c = Inr c1"
  shows "(\<forall>g ds. fetch w (geoUrl a) = Inr (Geo g) \<and> g_destinations g = Some ds \<and> ds \<noteq> [] \<longrightarrow>
            result (setDestination w c a) = Inr (Success (g_address g) (show_int (last ds)) ds)
            \<and> dest (after (setDestination w c a)) = show_int (last ds))
       \<and> (\<not> (\<exists>g ds. fetch w (geoUrl a) = Inr (Geo g) \<and> g_destinations g = Some ds \<and> ds \<noteq> []) \<longrightarrow>
            result (setDestination w c a) = Inr (Failure ''Could not find destination'')
            \<and> dest (after (setDestination w c a)) = dest c)"
proof -
  have same: "dest c1 = dest c"
    using assms by (auto simp: init_def split: if_splits option.splits)
  show ?thesis
    using assms same
    by (auto simp: setDestination_def Let_def destinations_of_def address_of_def
        split: sum.splits payload.splits option.splits list.splits)
qed

text \<open>The shop resolves Kazan to two candidates; it does not know Kaza.\<close>

theorem setDestination_outcome_witness:
  "init shop constructor = Inr (constructor\<lparr>isInitialized := True\<rparr>)
   \<and> fetch shop (geoUrl ''Kazan'') = Inr (Geo kazan)
   \<and> g_destinations kazan = Some [- 1029256, - 2133463]
   \<and> result (setDestination shop constructor ''Kazan'')
       = Inr (Success (Some ''Kazan'') ''-2133463'' [- 1029256, - 2133463])
   \<and> dest (after (setDestination shop constructor ''Kazan'')) = ''-2133463''
   \<and> fetch shop (geoUrl ''Kaza'') = Inl (FetchFailed ''HTTP 404'')
   \<and> result (setDestination shop constructor ''Kaza'') = Inr (Failure ''Could not find destination'')
   \<and> dest (after (setDestination shop constructor ''Kaza'')) = ''-1255987''"
proof -
  have ready: "init shop constructor = Inr (constructor\<lparr>isInitialized := True\<rparr>)"
    by (simp add: init_def shop_def constructor_def)
  have found: "fetch shop (geoUrl ''Kazan'') = Inr (Geo kazan)"
    by (simp add: js_defs search_defs shop_defs show_nat.simps)
  have ds: "g_destinations kazan = Some [- 1029256, - 2133463]"
    by (simp add: kazan_def)
  have missing: "fetch shop (geoUrl ''Kaza'') = Inl (FetchFailed ''HTTP 404'')"
    by (simp add: js_defs search_defs shop_defs show_nat.simps)
  have shown: "show_int (- 2133463) = ''-2133463''"
    by (simp add: show_int_def show_nat.simps)
  have a: "g_address kazan = Some ''Kazan''" and d: "dest constructor = ''-1255987''"
    by (simp_all add: kazan_def constructor_def)
  from setDestination_outcome [OF ready, of "''Kazan''"] found ds
  have ok: "result (setDestination shop constructor ''Kazan'')
              = Inr (Success (g_address kazan) (show_int (last [- 1029256, - 2133463]))
                      [- 1029256, - 2133463])
            \<and> dest (after (setDestination shop constructor ''Kazan''))
              = show_int (last [- 1029256, - 2133463])"
    by blast
  from setDestination_outcome [OF ready, of "''Kaza''"] missing
  have ko: "result (setDestination shop constructor ''Kaza'') = Inr (Failure ''Could not find destination'')
            \<and> dest (after (setDestination shop constructor ''Kaza'')) = dest constructor"
    by simp
  from ok ko ready found ds missing shown a d show ?thesis by simp
qed

section \<open>Not found and the empty list\<close>

lemma init_keeps_dest: "init w c = Inr c1 \<Longrightarrow> dest c1 = dest c"
  by (auto simp: init_def split: if_splits option.splits)

lemmas detail_defs = getProductDetails_def getProductsList_def first_item_def assemble_def
  calculate_discount_def rubles_def first_basic_def delivery_window_def size_of_def
  stock_of_def productUrl_def item_of_def description_of_def options_of_def baskets_def
  vol_def part_def padStart2_def product_303_def detail_202_def hours_suffix_def

text \<open>
  Claim C4, as the code has it. Let the browser session be ready. When the detail
  descriptor yields no item for an id (its request fails, or it answers without a first
  product), \<open>getProductDetails\<close> fails with the not-found error for that id. When the
  list descriptor answers for that id with a document that holds no product,
  \<open>getProductsList\<close> returns the empty list as a result; when the request for the list
  descriptor fails, \<open>getProductsList\<close> fails with the error of the request.
\<close>

theorem not_found_and_empty_list:
  assumes "init w c = Inr c1"
  shows "((\<exists>e. fetch w (detailUrl (dest c) i) = Inl e)
          \<or> (\<exists>d. fetch w (detailUrl (dest c) i) = Inr d
                \<and> (products_of d = None \<or> products_of d = Some [])) \<longrightarrow>
            result (getProductDetails w c i) = Inl (ProductNotFound i))
       \<and> (\<forall>d. fetch w (listUrl (dest c) [show_int i]) = Inr d \<and> d \<noteq> JNull
                \<and> (products_of d = None \<or> products_of d = Some []) \<longrightarrow>
            result (getProductsList w c [i]) = Inr [])
       \<and> (\<forall>e. fetch w (listUrl (dest c) [show_int i]) = Inl e \<longrightarrow>
            result (getProductsList w c [i]) = Inl e)"
proof -
  have same: "dest c1 = dest c"
    using assms by (rule init_keeps_dest)
  have details: "(\<exists>e. fetch w (detailUrl (dest c) i) = Inl e)
          \<or> (\<exists>d. fetch w (detailUrl (dest c) i) = Inr d
                \<and> (products_of d = None \<or> products_of d = Some [])) \<longrightarrow>
            result (getProductDetails w c i) = Inl (ProductNotFound i)"
    using assms same by (auto simp: getProductDetails_def first_item_def Let_def)
  have empty: "\<forall>d. fetch w (listUrl (dest c) [show_int i]) = Inr d \<and> d \<noteq> JNull
                \<and> (products_of d = None \<or> products_of d = Some []) \<longrightarrow>
            result (getProductsList w c [i]) = Inr []"
    using assms same by (auto simp: getProductsList_def Let_def split: payload.splits)
  have failing: "\<forall>e. fetch w (listUrl (dest c) [show_int i]) = Inl e \<longrightarrow>
            result (getProductsList w c [i]) = Inl e"
    using assms same by (auto simp: getProductsList_def Let_def)
  from details empty failing show ?thesis by blast
qed

text \<open>
  Article 404 in the shop: no detail, and an empty list. Article 505 is unknown to the
  shop and both requests fail.
\<close>

theorem not_found_and_empty_list_witness:
  "init shop constructor = Inr (constructor\<lparr>isInitialized := True\<rparr>)
   \<and> fetch shop (detailUrl (dest constructor) 404) = Inr (Descriptor (Some []))
   \<and> fetch shop (listUrl (dest constructor) [show_int 404]) = Inr (Descriptor (Some []))
   \<and> result (getProductDetails shop constructor 404) = Inl (ProductNotFound 404)
   \<and> result (getProductsList shop constructor [404]) = Inr []
   \<and> fetch shop (listUrl (dest constructor) [show_int 505]) = Inl (FetchFailed ''HTTP 404'')
   \<and> result (getProductsList shop constructor [505]) = Inl (FetchFailed ''HTTP 404'')"
proof -
  have ready: "init shop constructor = Inr (constructor\<lparr>isInitialized := True\<rparr>)"
    by (simp add: init_def shop_def constructor_def)
  have d404: "fetch shop (detailUrl (dest constructor) 404) = Inr (Descriptor (Some []))"
    by (simp add: js_defs search_defs shop_defs show_nat.simps)
  have l404: "fetch shop (listUrl (dest constructor) [show_int 404]) = Inr (Descriptor (Some []))"
    by (simp add: js_defs search_defs shop_defs show_nat.simps)
  have l505: "fetch shop (listUrl (dest constructor) [show_int 505]) = Inl (FetchFailed ''HTTP 404'')"
    by (simp add: js_defs search_defs shop_defs show_nat.simps)
  have none: "products_of (Descriptor (Some [])) = Some []"
    by (simp add: products_of_def)
  from not_found_and_empty_list [OF ready, of 404] d404 l404 none
  have a: "result (getProductDetails shop constructor 404) = Inl (ProductNotFound 404)
           \<and> result (getProductsList shop constructor [404]) = Inr []"
    by simp
  from not_found_and_empty_list [OF ready, of 505] l505
  have b: "result (getProductsList shop constructor [505]) = Inl (FetchFailed ''HTTP 404'')"
    by simp
  from a b ready d404 l404 l505 show ?thesis by simp
qed

text \<open>
  Claim C4 as stated fails where the descriptor yields no item because its requests
  fail: \<open>getProductDetails\<close> reports not found, and \<open>getProductsList\<close> for the same id
  fails with the error of the request instead of returning the empty list.
\<close>

theorem not_found_and_empty_list_counterexample:
  "fetch shop_offline (detailUrl ''-1255987'' 202) = Inl (FetchFailed ''HTTP 404'')
   \<and> fetch shop_offline (listUrl ''-1255987'' [''202'']) = Inl (FetchFailed ''HTTP 404'')
   \<and> result (getProductDetails shop_offline constructor 202) = Inl (ProductNotFound 202)
   \<and> result (getProductsList shop_offline constructor [202]) = Inl (FetchFailed ''HTTP 404'')
   \<and> result (getProductsList shop_offline constructor [202]) \<noteq> Inr []"
  by (simp add: shop_offline_def shop_def getProductDetails_def getProductsList_def init_def
      constructor_def first_item_def Let_def)

section \<open>The discount\<close>

text \<open>
  A price that is present is truthy: the double of a kopek amount that is not 0 has a
  magnitude of at least 1, and a hundredth of it is not 0.
\<close>

lemma bits_nonneg: "0 \<le> bits n"
  by (induction n rule: bits.induct) (subst bits.simps, simp)

lemma bits_positive: "0 < n \<Longrightarrow> 1 \<le> bits n"
  using bits_nonneg [of "n div 2"] by (subst bits.simps) simp

lemma bits_lower: "0 < n \<Longrightarrow> 2 ^ nat (bits n - 1) \<le> n"
proof (induction n rule: bits.induct)
  case (1 n)
  show ?case
  proof (cases "n = 1")
    case True
    then show ?thesis
      by (simp add: bits.simps [of 1] bits.simps [of 0])
  next
    case False
    with "1.prems" have half: "0 < n div 2" by simp
    with "1.IH" "1.prems" have ih: "2 ^ nat (bits (n div 2) - 1) \<le> n div 2"
      by simp
    have "nat (bits n - 1) = Suc (nat (bits (n div 2) - 1))"
      using "1.prems" bits_positive [OF half] by (subst bits.simps) simp
    then have "2 ^ nat (bits n - 1) = 2 * 2 ^ nat (bits (n div 2) - 1)"
      by simp
    also have "\<dots> \<le> 2 * (n div 2)"
      using ih by simp
    also have "\<dots> \<le> n"
      by simp
    finally show ?thesis .
  qed
qed

lemma bits_upper: "n < 2 ^ nat (bits n)"
proof (induction n rule: bits.induct)
  case (1 n)
  show ?case
  proof (cases "n \<le> 0")
    case True
    then show ?thesis
      by (smt (verit) zero_less_power)
  next
    case False
    with "1.IH" have ih: "n div 2 < 2 ^ nat (bits (n div 2))"
      by simp
    have "nat (bits n) = Suc (nat (bits (n div 2)))"
      using False bits_nonneg [of "n div 2"] by (subst bits.simps) simp
    then have "2 ^ nat (bits n) = 2 * (2::int) ^ nat (bits (n div 2))"
      by simp
    with ih show ?thesis
      by linarith
  qed
qed

lemma bits_bound: "n < 2 ^ k \<Longrightarrow> bits n \<le> int k"
proof (induction n arbitrary: k rule: bits.induct)
  case (1 n)
  show ?case
  proof (cases "n \<le> 0")
    case True
    then show ?thesis
      by (subst bits.simps) simp
  next
    case False
    then obtain j where k: "k = Suc j"
      using "1.prems" by (cases k) auto
    with "1.prems" have "n div 2 < 2 ^ j"
      by simp
    with "1.IH" False have "bits (n div 2) \<le> int j"
      by simp
    with False k show ?thesis
      by (subst bits.simps) simp
  qed
qed

lemma pow_positive: "0 < pow 2 e"
  by (simp add: pow_def)

lemma pow_power_int: "pow 2 e = power_int 2 e"
  by (simp add: pow_def power_int_def inverse_eq_divide power_one_over)

lemma pow_add: "pow 2 (a + b) = pow 2 a * pow 2 b"
  by (simp add: pow_power_int power_int_add)

lemma round_even_lower: "of_int n \<le> x \<Longrightarrow> n \<le> round_even x"
proof -
  assume "of_int n \<le> x"
  then have "n \<le> \<lfloor>x\<rfloor>"
    by (simp add: le_floor_iff)
  then show ?thesis
    by (auto simp: round_even_def)
qed

lemma exponent2_lower: "0 < p \<Longrightarrow> pow 2 (exponent2 p) \<le> p"
proof (cases "1 \<le> p")
  case True
  then have n: "0 < \<lfloor>p\<rfloor>"
    by simp
  have "pow 2 (exponent2 p) = 2 ^ nat (bits \<lfloor>p\<rfloor> - 1)"
    using True bits_positive [OF n] by (simp add: exponent2_def pow_def)
  also have "\<dots> = of_int (2 ^ nat (bits \<lfloor>p\<rfloor> - 1))"
    by simp
  also have "\<dots> \<le> of_int \<lfloor>p\<rfloor>"
    using bits_lower [OF n] by (simp only: of_int_le_iff)
  also have "\<dots> \<le> p"
    by simp
  finally show ?thesis .
next
  case False
  assume p: "0 < p"
  let ?c = "\<lceil>1 / p\<rceil> - 1"
  from False p have "1 < 1 / p"
    by simp
  then have c: "0 < ?c"
    by (simp add: less_ceiling_iff)
  have "1 / p \<le> of_int \<lceil>1 / p\<rceil>"
    by simp
  also have "\<lceil>1 / p\<rceil> \<le> 2 ^ nat (bits ?c)"
    using bits_upper [of ?c] by simp
  finally have "1 / p \<le> 2 ^ nat (bits ?c)"
    by simp
  then have "1 / 2 ^ nat (bits ?c) \<le> p"
    using p by (simp add: field_simps)
  moreover have "pow 2 (exponent2 p) = 1 / 2 ^ nat (bits ?c)"
    using False bits_positive [OF c] by (simp add: exponent2_def pow_def)
  ultimately show ?thesis
    by simp
qed

lemma nearest_magnitude:
  assumes "0 < p" and "- 1022 \<le> exponent2 p"
  shows "pow 2 (exponent2 p) \<le> of_int (round_even (p / ulp p)) * ulp p"
proof -
  have u: "ulp p = pow 2 (exponent2 p - 52)"
    using assms(2) by (simp add: ulp_def max_def)
  have split: "pow 2 (exponent2 p) = pow 2 52 * ulp p"
    using pow_add [of 52 "exponent2 p - 52"] by (simp add: u)
  have pos: "0 < ulp p"
    by (simp add: u pow_positive)
  have "pow 2 52 * ulp p \<le> p"
    using exponent2_lower [OF assms(1)] by (simp add: split)
  then have "pow 2 52 \<le> p / ulp p"
    using pos by (simp add: field_simps)
  then have "of_int (2 ^ 52) \<le> p / ulp p"
    by (simp add: pow_def)
  then have "2 ^ 52 \<le> round_even (p / ulp p)"
    by (rule round_even_lower)
  then have "pow 2 52 \<le> of_int (round_even (p / ulp p))"
    by (simp add: pow_def)
  then have "pow 2 52 * ulp p \<le> of_int (round_even (p / ulp p)) * ulp p"
    using pos by simp
  then show ?thesis
    by (simp add: split)
qed

lemma exponent2_large: "1 \<le> p \<Longrightarrow> 0 \<le> exponent2 p"
  using bits_positive [of "\<lfloor>p\<rfloor>"] by (simp add: exponent2_def)

lemma exponent2_small: "1 / 100 \<le> p \<Longrightarrow> - 7 \<le> exponent2 p"
proof (cases "1 \<le> p")
  case True
  then show ?thesis
    using exponent2_large [of p] by simp
next
  case False
  assume p: "1 / 100 \<le> p"
  then have "1 / p \<le> 100"
    by (simp add: field_simps)
  then have "\<lceil>1 / p\<rceil> \<le> 100"
    by (simp add: ceiling_le_iff)
  then have "\<lceil>1 / p\<rceil> - 1 < 2 ^ 7"
    by simp
  then have "bits (\<lceil>1 / p\<rceil> - 1) \<le> 7"
    using bits_bound [of "\<lceil>1 / p\<rceil> - 1" 7] by simp
  with False show ?thesis
    by (simp add: exponent2_def)
qed

lemma nearest_large:
  assumes "1 \<le> \<bar>q\<bar>" and "nearest q = Fin r"
  shows "1 \<le> \<bar>r\<bar>"
proof -
  let ?m = "of_int (round_even (\<bar>q\<bar> / ulp \<bar>q\<bar>)) * ulp \<bar>q\<bar>"
  have e: "0 \<le> exponent2 \<bar>q\<bar>"
    using assms(1) by (rule exponent2_large)
  with assms(1) have "pow 2 (exponent2 \<bar>q\<bar>) \<le> ?m"
    using nearest_magnitude [of "\<bar>q\<bar>"] by simp
  moreover have "1 \<le> pow 2 (exponent2 \<bar>q\<bar>)"
    using e by (simp add: pow_def)
  ultimately have m: "1 \<le> ?m"
    by simp
  from assms have "r = sgn q * ?m"
    by (auto simp: nearest_def split: if_splits)
  moreover from assms(1) have "\<bar>sgn q\<bar> = 1"
    by (auto simp: sgn_if)
  moreover from m have "\<bar>?m\<bar> = ?m"
    by simp
  ultimately have "\<bar>r\<bar> = ?m"
    by (simp only: abs_mult mult_1)
  with m show ?thesis
    by simp
qed

lemma nearest_small:
  assumes "1 / 100 \<le> \<bar>q\<bar>" and "nearest q = Fin r"
  shows "r \<noteq> 0"
proof -
  let ?m = "of_int (round_even (\<bar>q\<bar> / ulp \<bar>q\<bar>)) * ulp \<bar>q\<bar>"
  have e: "- 7 \<le> exponent2 \<bar>q\<bar>"
    using assms(1) by (rule exponent2_small)
  with assms(1) have "pow 2 (exponent2 \<bar>q\<bar>) \<le> ?m"
    using nearest_magnitude [of "\<bar>q\<bar>"] by simp
  then have m: "0 < ?m"
    using pow_positive [of "exponent2 \<bar>q\<bar>"] by simp
  from assms have "r = sgn q * ?m"
    by (auto simp: nearest_def split: if_splits)
  with m assms(1) show ?thesis
    by (auto simp: sgn_if)
qed

lemma kopeks_truthy:
  assumes "k \<noteq> 0"
  shows "truthy_double (Some (fdiv (nearest (of_int k)) (Fin 100)))"
proof (cases "nearest (of_int k)")
  case (Fin r)
  from assms have "1 \<le> \<bar>k\<bar>"
    by simp
  then have "(of_int 1 :: rat) \<le> of_int \<bar>k\<bar>"
    by (simp only: of_int_le_iff)
  then have "1 \<le> \<bar>(of_int k :: rat)\<bar>"
    by simp
  then have r: "1 \<le> \<bar>r\<bar>"
    using Fin by (rule nearest_large)
  then have "1 / 100 \<le> \<bar>r / 100\<bar>"
    by simp
  then have "\<And>s. nearest (r / 100) = Fin s \<Longrightarrow> s \<noteq> 0"
    by (rule nearest_small)
  moreover have "nearest (r / 100) \<noteq> NaN"
    by (simp add: nearest_def)
  ultimately show ?thesis
    using r Fin
    by (cases "nearest (r / 100)")
      (auto simp: fdiv_def truthy_double_def is_nan_def is_inf_def is_zero_def rational_def)
next
  case PInf
  then show ?thesis
    by (simp add: fdiv_def truthy_double_def is_nan_def is_inf_def is_zero_def infinity_def)
next
  case NInf
  then show ?thesis
    by (simp add: fdiv_def truthy_double_def is_nan_def is_inf_def is_zero_def infinity_def)
next
  case NaN
  then show ?thesis
    by (simp add: nearest_def split: if_splits)
qed

lemma rubles_truthy: "rubles x = Some d \<Longrightarrow> truthy_double (Some d)"
  using kopeks_truthy [of "the x"]
  by (auto simp: rubles_def truthy_int_def split: if_splits option.splits)

lemma getProductDetails_result:
  assumes "result (getProductDetails w c i) = Inr r"
  shows "\<exists>product cardData. r = calculate_discount (assemble i product cardData)"
  using assms
  by (auto simp: getProductDetails_def Let_def split: sum.splits option.splits)

lemma assemble_prices:
  "d_priceBasic (assemble i p cd) = rubles (first_basic p)"
  "d_priceFinal (assemble i p cd) = rubles (first_product p)"
  "d_discount (assemble i p cd) = None"
  by (simp_all add: assemble_def)

text \<open>
  Claim C2. In every detail record that \<open>getProductDetails\<close> returns: when both
  \<open>priceBasic\<close> and \<open>priceFinal\<close> are present, \<open>discount\<close> is
  \<open>round((1 - priceFinal / priceBasic) * 100)\<close>, where the division, the subtraction
  and the multiplication are those of doubles and, for a finite product \<open>x\<close>, \<open>round\<close>
  gives the greatest integer not above \<open>x + 1/2\<close>; when either price is \<open>null\<close>,
  \<open>discount\<close> is \<open>null\<close>.
\<close>

theorem getProductDetails_discount:
  assumes "result (getProductDetails w c i) = Inr r"
  shows "(\<forall>b f. d_priceBasic r = Some b \<and> d_priceFinal r = Some f \<longrightarrow>
            d_discount r = Some (math_round (fmul (fsub (Fin 1) (fdiv f b)) (Fin 100)))
            \<and> (\<forall>x. fmul (fsub (Fin 1) (fdiv f b)) (Fin 100) = Fin x \<longrightarrow>
                  d_discount r = Some (Fin (of_int \<lfloor>x + 1 / 2\<rfloor>))))
       \<and> (d_priceBasic r = None \<or> d_priceFinal r = None \<longrightarrow> d_discount r = None)"
proof -
  from getProductDetails_result [OF assms]
  obtain p cd where r: "r = calculate_discount (assemble i p cd)"
    by blast
  show ?thesis
  proof (intro conjI allI impI)
    fix b f
    assume both: "d_priceBasic r = Some b \<and> d_priceFinal r = Some f"
    then have raw: "rubles (first_basic p) = Some b" "rubles (first_product p) = Some f"
      by (auto simp: r calculate_discount_def assemble_prices split: if_splits)
    then have "truthy_double (Some b)" "truthy_double (Some f)"
      by (auto dest: rubles_truthy)
    with raw show discount:
      "d_discount r = Some (math_round (fmul (fsub (Fin 1) (fdiv f b)) (Fin 100)))"
      by (simp add: r calculate_discount_def assemble_prices)
    fix x
    assume "fmul (fsub (Fin 1) (fdiv f b)) (Fin 100) = Fin x"
    with discount show "d_discount r = Some (Fin (of_int \<lfloor>x + 1 / 2\<rfloor>))"
      by (simp add: math_round_def)
  next
    assume "d_priceBasic r = None \<or> d_priceFinal r = None"
    then show "d_discount r = None"
      by (auto simp: r calculate_discount_def assemble_prices truthy_double_def
          split: if_splits)
  qed
qed

text \<open>
  Article 202 costs 200 rubles basic and 150 rubles final: a discount of 25. At 40
  rubles basic and 17 rubles final the product is the double 57.49999999999999 and the
  discount is 57, where exact arithmetic has 57.5 and would round to 58. At 3 rubles
  basic and 1 ruble final the product is 66.66666666666667 and the discount is 67.
  Article 303 has no prices and no discount.
\<close>

lemma sold_prices:
  "d_priceBasic (sold (priced 4000 1700)) = Some (Fin 40)"
  "d_priceFinal (sold (priced 4000 1700)) = Some (Fin 17)"
  "d_priceBasic (sold (priced 300 100)) = Some (Fin 3)"
  "d_priceFinal (sold (priced 300 100)) = Some (Fin 1)"
  by (simp_all add: sold_def calculate_discount_def assemble_prices rubles_def first_basic_def
      first_product_def first_size_price_def priced_def truthy_int_def double_defs)

lemma sold_products:
  "fmul (fsub (Fin 1) (fdiv (Fin 17) (Fin 40))) (Fin 100)
     = Fin (8092405580431359 / 140737488355328)"
  "fmul (fsub (Fin 1) (fdiv (Fin 1) (Fin 3))) (Fin 100)
     = Fin (4691249611844267 / 70368744177664)"
  by (simp_all add: double_defs)

lemma sold_anywhere:
  "result (getProductDetails (shop_selling p) constructor 7) = Inr (sold p)"
  by (simp add: getProductDetails_def init_def shop_selling_def shop_def constructor_def
      first_item_def products_of_def baskets_def upt_conv_Cons Let_def sold_def)

theorem getProductDetails_discount_witness:
  "result (getProductDetails shop constructor 202) = Inr detail_202
   \<and> d_priceBasic detail_202 = Some (Fin 200) \<and> d_priceFinal detail_202 = Some (Fin 150)
   \<and> d_discount detail_202 = Some (Fin 25)
   \<and> result (getProductDetails (shop_selling (priced 4000 1700)) constructor 7)
       = Inr (sold (priced 4000 1700))
   \<and> d_priceBasic (sold (priced 4000 1700)) = Some (Fin 40)
   \<and> d_priceFinal (sold (priced 4000 1700)) = Some (Fin 17)
   \<and> fmul (fsub (Fin 1) (fdiv (Fin 17) (Fin 40))) (Fin 100)
       = Fin (8092405580431359 / 140737488355328)
   \<and> d_discount (sold (priced 4000 1700)) = Some (Fin 57)
   \<and> \<lfloor>(1 - (17 :: rat) / 40) * 100 + 1 / 2\<rfloor> = 58
   \<and> result (getProductDetails (shop_selling (priced 300 100)) constructor 7)
       = Inr (sold (priced 300 100))
   \<and> d_discount (sold (priced 300 100)) = Some (Fin 67)
   \<and> result (getProductDetails shop constructor 303)
       = Inr (assemble 303 product_303 (fst (probe shop 303 baskets)))
   \<and> d_priceBasic (assemble 303 product_303 (fst (probe shop 303 baskets))) = None
   \<and> d_discount (assemble 303 product_303 (fst (probe shop 303 baskets))) = None"
proof -
  have run: "result (getProductDetails shop constructor 202) = Inr detail_202"
    by (simp add: js_defs search_defs shop_defs detail_defs double_defs show_nat.simps Let_def
        upt_conv_Cons)
  have prices: "d_priceBasic detail_202 = Some (Fin 200) \<and> d_priceFinal detail_202 = Some (Fin 150)"
    by (simp add: detail_202_def)
  have quarter: "math_round (fmul (fsub (Fin 1) (fdiv (Fin 150) (Fin 200))) (Fin 100)) = Fin 25"
    by (simp add: double_defs)
  have exact: "\<lfloor>(1 - (17 :: rat) / 40) * 100 + 1 / 2\<rfloor> = 58"
    by (simp add: floor_rat_numeral)
  have unpriced: "rubles (first_basic product_303) = None"
    by (simp add: rubles_def first_basic_def first_size_price_def product_303_def
        truthy_int_def)
  have none: "d_priceBasic (assemble 303 product_303 (fst (probe shop 303 baskets))) = None"
    by (simp add: assemble_prices unpriced)
  have run': "result (getProductDetails shop constructor 303)
       = Inr (assemble 303 product_303 (fst (probe shop 303 baskets)))"
    by (simp add: getProductDetails_def init_def shop_def constructor_def shop_fetch_def
        detailUrl_def listUrl_def show_int_def show_nat.simps first_item_def products_of_def
        Let_def calculate_discount_def assemble_prices unpriced truthy_double_def)
  from getProductDetails_discount [OF run] prices quarter
  have a: "d_discount detail_202 = Some (Fin 25)"
    by simp
  from getProductDetails_discount [OF sold_anywhere [of "priced 4000 1700"]] sold_prices(1,2)
  have "\<forall>x. fmul (fsub (Fin 1) (fdiv (Fin 17) (Fin 40))) (Fin 100) = Fin x \<longrightarrow>
      d_discount (sold (priced 4000 1700)) = Some (Fin (of_int \<lfloor>x + 1 / 2\<rfloor>))"
    by blast
  with sold_products(1)
  have "d_discount (sold (priced 4000 1700))
      = Some (Fin (of_int \<lfloor>8092405580431359 / 140737488355328 + 1 / 2 :: rat\<rfloor>))"
    by blast
  then have b: "d_discount (sold (priced 4000 1700)) = Some (Fin 57)"
    by (simp add: floor_rat_numeral)
  from getProductDetails_discount [OF sold_anywhere [of "priced 300 100"]] sold_prices(3,4)
  have "\<forall>x. fmul (fsub (Fin 1) (fdiv (Fin 1) (Fin 3))) (Fin 100) = Fin x \<longrightarrow>
      d_discount (sold (priced 300 100)) = Some (Fin (of_int \<lfloor>x + 1 / 2\<rfloor>))"
    by blast
  with sold_products(2)
  have "d_discount (sold (priced 300 100))
      = Some (Fin (of_int \<lfloor>4691249611844267 / 70368744177664 + 1 / 2 :: rat\<rfloor>))"
    by blast
  then have c: "d_discount (sold (priced 300 100)) = Some (Fin 67)"
    by (simp add: floor_rat_numeral)
  from getProductDetails_discount [OF run'] none
  have d: "d_discount (assemble 303 product_303 (fst (probe shop 303 baskets))) = None"
    by simp
  from run prices a sold_anywhere sold_prices sold_products(1) b exact c run' none d
  show ?thesis by simp
qed

section \<open>Resolving the content descriptor\<close>

lemma probe_none:
  "\<forall>a\<in>set bs. \<not> answers w i a \<Longrightarrow> probe w i bs = (None, map (\<lambda>b. cardUrl b i) bs)"
  by (induction bs) (auto simp: answers_def Let_def split: sum.splits payload.splits)

lemma probe_first:
  "\<forall>a\<in>set pre. \<not> answers w i a \<Longrightarrow> fetch w (cardUrl h i) = Inr d \<Longrightarrow> d \<noteq> JNull \<Longrightarrow>
     probe w i (pre @ h # post) = (Some d, map (\<lambda>b. cardUrl b i) (pre @ [h]))"
  by (induction pre) (auto simp: answers_def Let_def split: sum.splits payload.splits)

lemma getProductDetails_trace:
  "init w c = Inr c1 \<Longrightarrow>
     trace (getProductDetails w c i)
       = Fetch (detailUrl (dest c) i) # map Fetch (snd (probe w i baskets))"
  by (auto simp: getProductDetails_def Let_def dest: init_keeps_dest split: option.splits)

lemma getProductDetails_without_content:
  assumes "init w c = Inr c1" and "fetch w (detailUrl (dest c) i) = Inr d"
    and "products_of d = Some (p # ps)" and "fst (probe w i baskets) = None"
  shows "result (getProductDetails w c i) = Inr (calculate_discount (assemble i p None))"
  using assms init_keeps_dest [OF assms(1)]
  by (simp add: getProductDetails_def Let_def first_item_def)

lemma without_content_is_empty:
  "d_description (calculate_discount (assemble i p None)) = None
   \<and> d_characteristics (calculate_discount (assemble i p None)) = []"
  by (simp add: calculate_discount_def assemble_def)

text \<open>
  Claim C7. The URL of a content descriptor holds two path segments derived from the
  numeric id by integer division, the id divided by 100000 and by 1000, on the mirror
  host of a given number. With the browser session ready, \<open>getProductDetails\<close> requests
  the detail descriptor and then probes the hosts 1 to 36 in this order, one request per
  host: it stops at the first host that answers with a truthy document, having requested
  that host and the ones before it; when no host answers, it has requested all 36 and
  holds no content descriptor. In the latter case, if the detail descriptor has a first
  product, \<open>getProductDetails\<close> still returns a record, with \<open>description\<close> \<open>null\<close>
  and an empty list of characteristics.
\<close>

theorem content_descriptor_resolution:
  assumes "init w c = Inr c1"
  shows "cardUrl b i
           = ''https://basket-'' @ padStart2 (show_nat b) @ ''.wbbasket.ru/vol''
             @ show_int (i div 100000) @ ''/part'' @ show_int (i div 1000) @ ''/''
             @ show_int i @ ''/info/ru/card.json''
       \<and> baskets = [1..<37]
       \<and> trace (getProductDetails w c i)
           = Fetch (detailUrl (dest c) i) # map Fetch (snd (probe w i baskets))
       \<and> (\<forall>pre h post d.
             baskets = pre @ h # post \<and> (\<forall>a\<in>set pre. \<not> answers w i a)
             \<and> fetch w (cardUrl h i) = Inr d \<and> d \<noteq> JNull \<longrightarrow>
             probe w i baskets = (Some d, map (\<lambda>b. cardUrl b i) (pre @ [h])))
       \<and> ((\<forall>a\<in>set baskets. \<not> answers w i a) \<longrightarrow>
             probe w i baskets = (None, map (\<lambda>b. cardUrl b i) baskets)
             \<and> (\<forall>d p ps. fetch w (detailUrl (dest c) i) = Inr d \<and> products_of d = Some (p # ps) \<longrightarrow>
                  result (getProductDetails w c i) = Inr (calculate_discount (assemble i p None))
                  \<and> d_description (calculate_discount (assemble i p None)) = None
                  \<and> d_characteristics (calculate_discount (assemble i p None)) = []))"
proof (intro conjI allI impI)
  show "cardUrl b i
           = ''https://basket-'' @ padStart2 (show_nat b) @ ''.wbbasket.ru/vol''
             @ show_int (i div 100000) @ ''/part'' @ show_int (i div 1000) @ ''/''
             @ show_int i @ ''/info/ru/card.json''"
    by (simp add: cardUrl_def vol_def part_def)
  show "baskets = [1..<37]"
    by (simp add: baskets_def)
  show "trace (getProductDetails w c i)
           = Fetch (detailUrl (dest c) i) # map Fetch (snd (probe w i baskets))"
    using assms by (rule getProductDetails_trace)
next
  fix pre h post d
  assume "baskets = pre @ h # post \<and> (\<forall>a\<in>set pre. \<not> answers w i a)
             \<and> fetch w (cardUrl h i) = Inr d \<and> d \<noteq> JNull"
  then show "probe w i baskets = (Some d, map (\<lambda>b. cardUrl b i) (pre @ [h]))"
    using probe_first [of pre w i h d post] by simp
next
  assume none: "\<forall>a\<in>set baskets. \<not> answers w i a"
  then show exhausted: "probe w i baskets = (None, map (\<lambda>b. cardUrl b i) baskets)"
    by (rule probe_none)
  fix d p ps
  assume found: "fetch w (detailUrl (dest c) i) = Inr d \<and> products_of d = Some (p # ps)"
  with assms exhausted
  show "result (getProductDetails w c i) = Inr (calculate_discount (assemble i p None))"
    by (simp add: getProductDetails_without_content)
  show "d_description (calculate_discount (assemble i p None)) = None"
    by (simp add: without_content_is_empty)
  show "d_characteristics (calculate_discount (assemble i p None)) = []"
    by (simp add: without_content_is_empty)
qed

text \<open>
  In the shop the content descriptor of article 202 lies on host 3, after two requests
  that fail. In the shop without content all 36 hosts are asked and the record of
  article 202 comes back without description and characteristics.
\<close>

theorem content_descriptor_resolution_witness:
  "init shop constructor = Inr (constructor\<lparr>isInitialized := True\<rparr>)
   \<and> baskets = [1, 2] @ 3 # [4..<37]
   \<and> \<not> answers shop 202 1 \<and> \<not> answers shop 202 2
   \<and> fetch shop (cardUrl 3 202) = Inr (Content content_202)
   \<and> probe shop 202 baskets
       = (Some (Content content_202),
          [''https://basket-01.wbbasket.ru/vol0/part0/202/info/ru/card.json'',
           ''https://basket-02.wbbasket.ru/vol0/part0/202/info/ru/card.json'',
           ''https://basket-03.wbbasket.ru/vol0/part0/202/info/ru/card.json''])
   \<and> init shop_without_content constructor = Inr (constructor\<lparr>isInitialized := True\<rparr>)
   \<and> filter (answers shop_without_content 202) baskets = []
   \<and> fetch shop_without_content (detailUrl (dest constructor) 202)
       = Inr (Descriptor (Some [product_202]))
   \<and> length (snd (probe shop_without_content 202 baskets)) = 36
   \<and> result (getProductDetails shop_without_content constructor 202)
       = Inr (calculate_discount (assemble 202 product_202 None))
   \<and> d_description (calculate_discount (assemble 202 product_202 None)) = None
   \<and> d_characteristics (calculate_discount (assemble 202 product_202 None)) = []"
proof -
  have ready: "init shop constructor = Inr (constructor\<lparr>isInitialized := True\<rparr>)"
    by (simp add: init_def shop_def constructor_def)
  have ready': "init shop_without_content constructor = Inr (constructor\<lparr>isInitialized := True\<rparr>)"
    by (simp add: init_def shop_without_content_def shop_def constructor_def)
  have hosts: "baskets = [1, 2] @ 3 # [4..<37]"
    by (simp add: baskets_def upt_conv_Cons)
  have before: "\<forall>a\<in>set [1, 2]. \<not> answers shop 202 a"
    by (simp add: answers_def js_defs search_defs shop_defs detail_defs show_nat.simps)
  have third: "fetch shop (cardUrl 3 202) = Inr (Content content_202)"
    by (simp add: js_defs search_defs shop_defs detail_defs show_nat.simps)
  have urls: "map (\<lambda>b. cardUrl b 202) ([1, 2] @ [3])
      = [''https://basket-01.wbbasket.ru/vol0/part0/202/info/ru/card.json'',
         ''https://basket-02.wbbasket.ru/vol0/part0/202/info/ru/card.json'',
         ''https://basket-03.wbbasket.ru/vol0/part0/202/info/ru/card.json'']"
    by (simp add: js_defs cardUrl_def detail_defs show_nat.simps)
  have nowhere: "\<forall>a\<in>set baskets. \<not> answers shop_without_content 202 a"
    by (simp add: answers_def shop_without_content_def shop_def cardUrl_def detailUrl_def)
  have detail: "fetch shop_without_content (detailUrl (dest constructor) 202)
       = Inr (Descriptor (Some [product_202]))"
    by (simp add: shop_without_content_def shop_def constructor_def)
  have products: "products_of (Descriptor (Some [product_202])) = Some (product_202 # [])"
    by (simp add: products_of_def)
  from content_descriptor_resolution [OF ready, of _ 202] hosts before third
  have found: "probe shop 202 baskets
      = (Some (Content content_202), map (\<lambda>b. cardUrl b 202) ([1, 2] @ [3]))"
    by blast
  from content_descriptor_resolution [OF ready', of _ 202] nowhere detail products
  have lost: "probe shop_without_content 202 baskets = (None, map (\<lambda>b. cardUrl b 202) baskets)
      \<and> result (getProductDetails shop_without_content constructor 202)
          = Inr (calculate_discount (assemble 202 product_202 None))
      \<and> d_description (calculate_discount (assemble 202 product_202 None)) = None
      \<and> d_characteristics (calculate_discount (assemble 202 product_202 None)) = []"
    by blast
  then have count: "length (snd (probe shop_without_content 202 baskets)) = 36"
    by (simp add: baskets_def)
  from before have before': "\<not> answers shop 202 1 \<and> \<not> answers shop 202 2"
    by simp
  from nowhere have nowhere': "filter (answers shop_without_content 202) baskets = []"
    by (simp add: filter_empty_conv)
  from ready ready' hosts before' third found urls nowhere' detail lost count
  show ?thesis by simp
qed

section \<open>The default zone code\<close>

lemma search_keeps_dest: "dest (after (search w c q opts)) = dest c"
  by (auto simp: search_def search_cards_def Let_def dest: init_keeps_dest
      split: sum.splits nav.splits)

lemma getProductDetails_keeps_dest: "dest (after (getProductDetails w c i)) = dest c"
  by (auto simp: getProductDetails_def Let_def dest: init_keeps_dest
      split: sum.splits option.splits)

lemma getProductsList_keeps_dest: "dest (after (getProductsList w c ids)) = dest c"
  by (auto simp: getProductsList_def Let_def dest: init_keeps_dest split: sum.splits)

lemma getFilters_keeps_dest: "dest (after (getFilters w c q)) = dest c"
  by (auto simp: getFilters_def dest: init_keeps_dest split: sum.splits nav.splits)

lemma setDestination_keeps_dest:
  "(\<forall>x y z. result (setDestination w c a) \<noteq> Inr (Success x y z)) \<Longrightarrow>
     dest (after (setDestination w c a)) = dest c"
  by (auto simp: setDestination_def Let_def dest: init_keeps_dest
      split: sum.splits payload.splits option.splits list.splits)

lemma search_fetches:
  assumes "Fetch u \<in> set (trace (search w c q opts))"
  shows "\<exists>ids. u = listUrl (dest c) ids"
proof (cases "init w c")
  case (Inl e)
  with assms show ?thesis
    by (simp add: search_def)
next
  case (Inr c1)
  then have "dest c1 = dest c"
    by (rule init_keeps_dest)
  with assms Inr show ?thesis
    by (auto simp: search_def search_cards_def Let_def split: nav.splits if_splits)
qed

lemma getProductsList_trace:
  "init w c = Inr c1 \<Longrightarrow>
     trace (getProductsList w c ids) = [Fetch (listUrl (dest c) (map show_int ids))]"
  by (auto simp: getProductsList_def Let_def dest: init_keeps_dest)

text \<open>
  Claim C10. A client is constructed with the zone code \<open>-1255987\<close>. While the zone
  code has this value, \<open>search\<close>, \<open>getProductDetails\<close>, \<open>getProductsList\<close>,
  \<open>getFilters\<close> and every \<open>setDestination\<close> that does not succeed leave it in place,
  and every descriptor request carries it: the price request of a search and the
  request of \<open>getProductsList\<close> go to the list URL with \<open>dest=-1255987\<close>, and the
  first request of \<open>getProductDetails\<close> goes to the detail URL with \<open>dest=-1255987\<close>.
\<close>

theorem default_destination:
  "dest constructor = ''-1255987''
   \<and> (dest c = ''-1255987'' \<longrightarrow>
        dest (after (search w c q opts)) = ''-1255987''
      \<and> dest (after (getProductDetails w c i)) = ''-1255987''
      \<and> dest (after (getProductsList w c ids)) = ''-1255987''
      \<and> dest (after (getFilters w c q)) = ''-1255987''
      \<and> ((\<forall>x y z. result (setDestination w c a) \<noteq> Inr (Success x y z)) \<longrightarrow>
           dest (after (setDestination w c a)) = ''-1255987'')
      \<and> (\<forall>u. Fetch u \<in> set (trace (search w c q opts)) \<longrightarrow>
           (\<exists>nms. u = ''https://www.wildberries.ru/__internal/u-card/cards/v4/list?appType=1&curr=rub&dest=-1255987&spp=30&lang=ru&nm=''
                      @ join '';'' nms))
      \<and> (\<forall>c1. init w c = Inr c1 \<longrightarrow>
           hd (trace (getProductDetails w c i))
             = Fetch (''https://www.wildberries.ru/__internal/u-card/cards/v4/detail?appType=1&curr=rub&dest=-1255987&spp=30&lang=ru&nm=''
                      @ show_int i)
           \<and> trace (getProductsList w c ids)
             = [Fetch (''https://www.wildberries.ru/__internal/u-card/cards/v4/list?appType=1&curr=rub&dest=-1255987&spp=30&lang=ru&nm=''
                       @ join '';'' (map show_int ids))]))"
proof (intro conjI impI allI)
  show "dest constructor = ''-1255987''"
    by (simp add: constructor_def)
next
  assume d: "dest c = ''-1255987''"
  show "dest (after (search w c q opts)) = ''-1255987''"
    by (simp add: search_keeps_dest d)
  show "dest (after (getProductDetails w c i)) = ''-1255987''"
    by (simp add: getProductDetails_keeps_dest d)
  show "dest (after (getProductsList w c ids)) = ''-1255987''"
    by (simp add: getProductsList_keeps_dest d)
  show "dest (after (getFilters w c q)) = ''-1255987''"
    by (simp add: getFilters_keeps_dest d)
  {
    assume "\<forall>x y z. result (setDestination w c a) \<noteq> Inr (Success x y z)"
    then show "dest (after (setDestination w c a)) = ''-1255987''"
      by (simp add: setDestination_keeps_dest d)
  }
  {
    fix u assume "Fetch u \<in> set (trace (search w c q opts))"
    then obtain nms where "u = listUrl (dest c) nms"
      using search_fetches by blast
    then show "\<exists>nms. u = ''https://www.wildberries.ru/__internal/u-card/cards/v4/list?appType=1&curr=rub&dest=-1255987&spp=30&lang=ru&nm=''
                      @ join '';'' nms"
      by (auto simp: listUrl_def d)
  }
  {
    fix c1 assume ready: "init w c = Inr c1"
    show "hd (trace (getProductDetails w c i))
             = Fetch (''https://www.wildberries.ru/__internal/u-card/cards/v4/detail?appType=1&curr=rub&dest=-1255987&spp=30&lang=ru&nm=''
                      @ show_int i)"
      by (simp add: getProductDetails_trace [OF ready] detailUrl_def d)
    show "trace (getProductsList w c ids)
             = [Fetch (''https://www.wildberries.ru/__internal/u-card/cards/v4/list?appType=1&curr=rub&dest=-1255987&spp=30&lang=ru&nm=''
                       @ join '';'' (map show_int ids))]"
      by (simp add: getProductsList_trace [OF ready] listUrl_def d)
  }
qed

text \<open>
  A fresh client in the shop: the price request of the search for lamps and the
  requests for article 202 carry the default zone code, and a failed change of
  destination leaves it in place.
\<close>

theorem default_destination_witness:
  "dest constructor = ''-1255987''
   \<and> init shop constructor = Inr (constructor\<lparr>isInitialized := True\<rparr>)
   \<and> trace (search shop constructor ''lamp'' no_options)
       = [Goto ''https://www.wildberries.ru/catalog/0/search.aspx?search=lamp&sort=popular&page=1'',
          Fetch ''https://www.wildberries.ru/__internal/u-card/cards/v4/list?appType=1&curr=rub&dest=-1255987&spp=30&lang=ru&nm=202'']
   \<and> hd (trace (getProductDetails shop constructor 202))
       = Fetch ''https://www.wildberries.ru/__internal/u-card/cards/v4/detail?appType=1&curr=rub&dest=-1255987&spp=30&lang=ru&nm=202''
   \<and> trace (getProductsList shop constructor [202])
       = [Fetch ''https://www.wildberries.ru/__internal/u-card/cards/v4/list?appType=1&curr=rub&dest=-1255987&spp=30&lang=ru&nm=202'']
   \<and> result (setDestination shop constructor ''Kaza'') = Inr (Failure ''Could not find destination'')
   \<and> dest (after (setDestination shop constructor ''Kaza'')) = ''-1255987''"
proof -
  have ready: "init shop constructor = Inr (constructor\<lparr>isInitialized := True\<rparr>)"
    by (simp add: init_def shop_def constructor_def)
  have searched: "trace (search shop constructor ''lamp'' no_options)
       = [Goto ''https://www.wildberries.ru/catalog/0/search.aspx?search=lamp&sort=popular&page=1'',
          Fetch ''https://www.wildberries.ru/__internal/u-card/cards/v4/list?appType=1&curr=rub&dest=-1255987&spp=30&lang=ru&nm=202'']"
    by (simp add: js_defs search_defs shop_defs show_nat.simps Let_def)
  have failed: "result (setDestination shop constructor ''Kaza'')
       = Inr (Failure ''Could not find destination'')"
    by (simp add: setDestination_def js_defs search_defs shop_defs show_nat.simps Let_def)
  have shown: "show_int 202 = ''202''"
    by (simp add: show_int_def show_nat.simps)
  have fresh: "dest constructor = ''-1255987''"
    by (simp add: constructor_def)
  note default_destination [of constructor shop "''lamp''" no_options 202 "[202]" "''Kaza''"]
  with fresh ready failed shown
  have "hd (trace (getProductDetails shop constructor 202))
       = Fetch ''https://www.wildberries.ru/__internal/u-card/cards/v4/detail?appType=1&curr=rub&dest=-1255987&spp=30&lang=ru&nm=202''
   \<and> trace (getProductsList shop constructor [202])
       = [Fetch ''https://www.wildberries.ru/__internal/u-card/cards/v4/list?appType=1&curr=rub&dest=-1255987&spp=30&lang=ru&nm=202'']
   \<and> dest (after (setDestination shop constructor ''Kaza'')) = ''-1255987''"
    by simp
  with fresh ready searched failed show ?thesis by simp
qed

section \<open>Prices of a search\<close>


















section \<open>Batches of requests\<close>

lemma handle_answers:
  "fst (handleJsonRpcRequest w c r) = None \<longleftrightarrow> rq_method r = ''notifications/initialized''"
  by (simp add: handleJsonRpcRequest_def Let_def split: option.splits sum.splits)

lemma handle_response_id:
  "fst (handleJsonRpcRequest w c r) = Some x \<Longrightarrow> response_id x = rq_id r"
  by (auto simp: handleJsonRpcRequest_def Let_def response_id_def
      split: if_splits option.splits sum.splits)

lemma process_ids:
  "map response_id (fst (process w c rs))
     = map rq_id (filter (\<lambda>r. rq_method r \<noteq> ''notifications/initialized'') rs)"
proof (induction rs arbitrary: c)
  case Nil
  then show ?case by simp
next
  case (Cons r rs)
  show ?case
  proof (cases "fst (handleJsonRpcRequest w c r)")
    case None
    then have "rq_method r = ''notifications/initialized''"
      by (simp add: handle_answers)
    with None Cons.IH show ?thesis
      by (simp add: Let_def)
  next
    case (Some x)
    then have "rq_method r \<noteq> ''notifications/initialized''"
      using handle_answers [of w c r] by simp
    with Some Cons.IH handle_response_id [OF Some] show ?thesis
      by (simp add: Let_def)
  qed
qed

lemma process_append:
  "process w c (xs @ ys)
     = (fst (process w c xs) @ fst (process w (snd (process w c xs)) ys),
        snd (process w (snd (process w c xs)) ys))"
  by (induction xs arbitrary: c) (simp_all add: Let_def split: option.splits)

lemma process_split:
  "fst (process w c (pre @ r # post))
     = fst (process w c pre)
       @ (case fst (handleJsonRpcRequest w (snd (process w c pre)) r) of
            None \<Rightarrow> [] | Some x \<Rightarrow> [x])
       @ fst (process w (snd (handleJsonRpcRequest w (snd (process w c pre)) r)) post)"
  by (simp add: process_append Let_def split: option.splits)

lemma post_mcp_body:
  "rs_body (fst (post_mcp w sid now sv req))
     = (case fst (process w (sv_client sv) (requests_of (h_body req))) of
          [] \<Rightarrow> NoBody | [r] \<Rightarrow> Json r
        | _ \<Rightarrow> JsonArray (fst (process w (sv_client sv) (requests_of (h_body req)))))"
  by (simp add: post_mcp_def Let_def)

lemma post_mcp_status:
  "rs_status (fst (post_mcp w sid now sv req))
     = (if fst (process w (sv_client sv) (requests_of (h_body req))) = [] then 202 else 200)"
  by (simp add: post_mcp_def Let_def)

text \<open>
  Claim C8, as the code has it. For a batch POSTed as a list of requests, the responses
  the body carries are those of the loop over the requests. Each request is handled
  once, on the client as the requests before it have left it, and its response, if it
  has one, stands between the responses to the requests before it and those to the
  requests after it. The only requests without a response are those whose method is
  \<open>notifications/initialized\<close>; every other request, a notification too, has one:
  the ids of the responses are the ids of those other requests, in their order. When
  there is no response the status is 202 and the body is empty; otherwise the status is
  200, and the body is the single response itself when there is one and the array of
  the responses when there are two or more. If the batch holds an \<open>initialize\<close>
  request and the POST has no session header, the response carries the newly drawn
  session identifier in its session header and the session table holds it.
\<close>

theorem post_mcp_batch:
  assumes "h_body req = Batch rs"
  shows "carried (rs_body (fst (post_mcp w sid now sv req))) = fst (process w (sv_client sv) rs)
    \<and> (fst (process w (sv_client sv) rs) = [] \<longrightarrow>
          rs_status (fst (post_mcp w sid now sv req)) = 202
          \<and> rs_body (fst (post_mcp w sid now sv req)) = NoBody)
    \<and> (\<forall>x. fst (process w (sv_client sv) rs) = [x] \<longrightarrow>
          rs_status (fst (post_mcp w sid now sv req)) = 200
          \<and> rs_body (fst (post_mcp w sid now sv req)) = Json x)
    \<and> (2 \<le> length (fst (process w (sv_client sv) rs)) \<longrightarrow>
          rs_status (fst (post_mcp w sid now sv req)) = 200
          \<and> rs_body (fst (post_mcp w sid now sv req)) = JsonArray (fst (process w (sv_client sv) rs)))
    \<and> map response_id (fst (process w (sv_client sv) rs))
        = map rq_id (filter (\<lambda>r. rq_method r \<noteq> ''notifications/initialized'') rs)
    \<and> (\<forall>pre r post. rs = pre @ r # post \<longrightarrow>
          fst (process w (sv_client sv) rs)
            = fst (process w (sv_client sv) pre)
              @ (case fst (handleJsonRpcRequest w (snd (process w (sv_client sv) pre)) r) of
                   None \<Rightarrow> [] | Some x \<Rightarrow> [x])
              @ fst (process w
                       (snd (handleJsonRpcRequest w (snd (process w (sv_client sv) pre)) r)) post))
    \<and> (list_ex (\<lambda>r. rq_method r = ''initialize'') rs \<and> h_session req = None \<longrightarrow>
          rs_session (fst (post_mcp w sid now sv req)) = Some sid
          \<and> sv_sessions (snd (post_mcp w sid now sv req)) sid = Some now)"
proof (intro conjI allI impI)
  have batch: "requests_of (h_body req) = rs"
    using assms by (simp add: requests_of_def)
  show "carried (rs_body (fst (post_mcp w sid now sv req))) = fst (process w (sv_client sv) rs)"
    by (simp add: post_mcp_body batch carried_def split: list.splits)
  show "map response_id (fst (process w (sv_client sv) rs))
        = map rq_id (filter (\<lambda>r. rq_method r \<noteq> ''notifications/initialized'') rs)"
    by (rule process_ids)
  {
    assume none: "fst (process w (sv_client sv) rs) = []"
    show "rs_status (fst (post_mcp w sid now sv req)) = 202"
      by (simp add: post_mcp_status batch none)
    show "rs_body (fst (post_mcp w sid now sv req)) = NoBody"
      by (simp add: post_mcp_body batch none)
  }
  {
    fix x
    assume one: "fst (process w (sv_client sv) rs) = [x]"
    show "rs_status (fst (post_mcp w sid now sv req)) = 200"
      by (simp add: post_mcp_status batch one)
    show "rs_body (fst (post_mcp w sid now sv req)) = Json x"
      by (simp add: post_mcp_body batch one)
  }
  {
    assume more: "2 \<le> length (fst (process w (sv_client sv) rs))"
    then show "rs_status (fst (post_mcp w sid now sv req)) = 200"
      by (auto simp: post_mcp_status batch)
    from more show "rs_body (fst (post_mcp w sid now sv req))
        = JsonArray (fst (process w (sv_client sv) rs))"
      by (auto simp: post_mcp_body batch split: list.splits)
  }
  {
    fix pre r post
    assume "rs = pre @ r # post"
    then show "fst (process w (sv_client sv) rs)
            = fst (process w (sv_client sv) pre)
              @ (case fst (handleJsonRpcRequest w (snd (process w (sv_client sv) pre)) r) of
                   None \<Rightarrow> [] | Some x \<Rightarrow> [x])
              @ fst (process w
                       (snd (handleJsonRpcRequest w (snd (process w (sv_client sv) pre)) r)) post)"
      by (simp only: process_split)
  }
  {
    assume minted: "list_ex (\<lambda>r. rq_method r = ''initialize'') rs \<and> h_session req = None"
    then have "mints req"
      using assms by (simp add: mints_def requests_of_def truthy_str_def)
    then show "rs_session (fst (post_mcp w sid now sv req)) = Some sid"
      and "sv_sessions (snd (post_mcp w sid now sv req)) sid = Some now"
      by (simp_all add: post_mcp_def Let_def)
  }
qed

text \<open>
  The first POST of a session, without a session header: status 200 and two responses
  in an array, in the order of their requests, none for the notification, and the new
  session identifier. A batch of \<open>initialize\<close> and the notification is answered with
  the one response, not in an array; a batch of the notification alone with status 202
  and no body.
\<close>

theorem post_mcp_batch_witness:
  "h_body first_post = Batch [req_initialize, req_initialized, req_tools_list]
   \<and> h_session first_post = None
   \<and> list_ex (\<lambda>r. rq_method r = ''initialize'') [req_initialize, req_initialized, req_tools_list]
   \<and> fst (process shop constructor [req_initialize, req_initialized, req_tools_list])
       = [Response (Some 1) InitializeResult, Response (Some 2) (ToolsListResult TOOLS)]
   \<and> rs_status (fst (post_mcp shop ''mcp-k3x'' 1700 new_server first_post)) = 200
   \<and> rs_body (fst (post_mcp shop ''mcp-k3x'' 1700 new_server first_post))
       = JsonArray [Response (Some 1) InitializeResult, Response (Some 2) (ToolsListResult TOOLS)]
   \<and> rs_session (fst (post_mcp shop ''mcp-k3x'' 1700 new_server first_post)) = Some ''mcp-k3x''
   \<and> sv_sessions (snd (post_mcp shop ''mcp-k3x'' 1700 new_server first_post)) ''mcp-k3x''
       = Some 1700
   \<and> fst (process shop constructor [req_initialize, req_initialized])
       = [Response (Some 1) InitializeResult]
   \<and> rs_status (fst (post_mcp shop ''mcp-k3x'' 1700 new_server
                        \<lparr>h_session = None, h_body = Batch [req_initialize, req_initialized]\<rparr>)) = 200
   \<and> rs_body (fst (post_mcp shop ''mcp-k3x'' 1700 new_server
                      \<lparr>h_session = None, h_body = Batch [req_initialize, req_initialized]\<rparr>))
       = Json (Response (Some 1) InitializeResult)
   \<and> fst (process shop constructor [req_initialized]) = []
   \<and> rs_status (fst (post_mcp shop ''mcp-k3x'' 1700 new_server
                        \<lparr>h_session = None, h_body = Batch [req_initialized]\<rparr>)) = 202
   \<and> rs_body (fst (post_mcp shop ''mcp-k3x'' 1700 new_server
                      \<lparr>h_session = None, h_body = Batch [req_initialized]\<rparr>)) = NoBody"
proof -
  have batch: "h_body first_post = Batch [req_initialize, req_initialized, req_tools_list]"
    and header: "h_session first_post = None"
    by (simp_all add: first_post_def)
  have starts: "list_ex (\<lambda>r. rq_method r = ''initialize'')
      [req_initialize, req_initialized, req_tools_list]"
    by (simp add: req_initialize_def)
  have client: "sv_client new_server = constructor"
    by (simp add: new_server_def)
  have three: "fst (process shop constructor [req_initialize, req_initialized, req_tools_list])
      = [Response (Some 1) InitializeResult, Response (Some 2) (ToolsListResult TOOLS)]"
    by (simp add: handleJsonRpcRequest_def req_initialize_def req_initialized_def
        req_tools_list_def Let_def)
  have two: "fst (process shop constructor [req_initialize, req_initialized])
      = [Response (Some 1) InitializeResult]"
    by (simp add: handleJsonRpcRequest_def req_initialize_def req_initialized_def Let_def)
  have one: "fst (process shop constructor [req_initialized]) = []"
    by (simp add: handleJsonRpcRequest_def req_initialized_def Let_def)
  let ?two = "\<lparr>h_session = None, h_body = Batch [req_initialize, req_initialized]\<rparr>"
  let ?one = "\<lparr>h_session = None, h_body = Batch [req_initialized]\<rparr>"
  have batch2: "h_body ?two = Batch [req_initialize, req_initialized]"
    and batch1: "h_body ?one = Batch [req_initialized]"
    by simp_all
  note first = post_mcp_batch [OF batch, of shop "''mcp-k3x''" 1700 new_server]
  note second = post_mcp_batch [OF batch2, of shop "''mcp-k3x''" 1700 new_server]
  note third = post_mcp_batch [OF batch1, of shop "''mcp-k3x''" 1700 new_server]
  from first
  have "2 \<le> length (fst (process shop (sv_client new_server)
                            [req_initialize, req_initialized, req_tools_list])) \<longrightarrow>
        rs_status (fst (post_mcp shop ''mcp-k3x'' 1700 new_server first_post)) = 200
        \<and> rs_body (fst (post_mcp shop ''mcp-k3x'' 1700 new_server first_post))
          = JsonArray (fst (process shop (sv_client new_server)
                              [req_initialize, req_initialized, req_tools_list]))"
    by blast
  then have array: "rs_status (fst (post_mcp shop ''mcp-k3x'' 1700 new_server first_post)) = 200
      \<and> rs_body (fst (post_mcp shop ''mcp-k3x'' 1700 new_server first_post))
       = JsonArray [Response (Some 1) InitializeResult, Response (Some 2) (ToolsListResult TOOLS)]"
    unfolding client three by simp
  from first starts header
  have session: "rs_session (fst (post_mcp shop ''mcp-k3x'' 1700 new_server first_post))
        = Some ''mcp-k3x''
      \<and> sv_sessions (snd (post_mcp shop ''mcp-k3x'' 1700 new_server first_post)) ''mcp-k3x''
        = Some 1700"
    by blast
  from second
  have "\<forall>x. fst (process shop (sv_client new_server) [req_initialize, req_initialized]) = [x] \<longrightarrow>
        rs_status (fst (post_mcp shop ''mcp-k3x'' 1700 new_server ?two)) = 200
        \<and> rs_body (fst (post_mcp shop ''mcp-k3x'' 1700 new_server ?two)) = Json x"
    by blast
  then have bare: "rs_status (fst (post_mcp shop ''mcp-k3x'' 1700 new_server ?two)) = 200
      \<and> rs_body (fst (post_mcp shop ''mcp-k3x'' 1700 new_server ?two))
        = Json (Response (Some 1) InitializeResult)"
    unfolding client two by blast
  from third
  have "fst (process shop (sv_client new_server) [req_initialized]) = [] \<longrightarrow>
        rs_status (fst (post_mcp shop ''mcp-k3x'' 1700 new_server ?one)) = 202
        \<and> rs_body (fst (post_mcp shop ''mcp-k3x'' 1700 new_server ?one)) = NoBody"
    by blast
  then have empty: "rs_status (fst (post_mcp shop ''mcp-k3x'' 1700 new_server ?one)) = 202
      \<and> rs_body (fst (post_mcp shop ''mcp-k3x'' 1700 new_server ?one)) = NoBody"
    unfolding client one by blast
  from batch header starts three array session two bare one empty show ?thesis
    by blast
qed

text \<open>
  Claim C8 as stated fails for a notification other than \<open>notifications/initialized\<close>:
  the handler answers \<open>notifications/cancelled\<close>, which has no \<open>id\<close>, with a
  method-not-found error, and the response array holds an entry for it.
\<close>

theorem post_mcp_batch_counterexample:
  "rq_id req_cancelled = None
   \<and> fst (process shop constructor [req_initialize, req_cancelled])
       = [Response (Some 1) InitializeResult,
          ErrorResponse None (- 32601) ''Method not found: notifications/cancelled'']
   \<and> rs_body (fst (post_mcp shop ''mcp-k3x'' 1700 new_server
                      \<lparr>h_session = None, h_body = Batch [req_initialize, req_cancelled]\<rparr>))
       = JsonArray [Response (Some 1) InitializeResult,
                    ErrorResponse None (- 32601) ''Method not found: notifications/cancelled'']"
  by (simp add: post_mcp_def requests_of_def handleJsonRpcRequest_def req_initialize_def
      req_cancelled_def new_server_def Let_def)

end
